theory Spec2Isabelle
  imports Main
begin

section \<open>Python values, exceptions and the calls that leave the driver\<close>

text \<open>
  The driver of \<^verbatim>\<open>src/driver.py\<close> is dynamically typed glue code: every object it
  handles (context, logger, resource configuration, API handle, CLI session pool, handlers,
  runners, responses) is created by an imported collaborator and only passed on. Such an
  object is an opaque reference \<open>PyObj n\<close>; two references are the same object exactly
  when they are equal. The remaining constructors are the built-in values the driver's own
  code writes or tests (\<^verbatim>\<open>None\<close>, strings, the list \<^verbatim>\<open>SUPPORTED_OS\<close>).
\<close>

datatype pyval =
    PyNone
  | PyBool bool
  | PyInt int
  | PyStr string
  | PyList "pyval list"
  | PyObj nat

text \<open>
  Truth value testing, as used by \<^verbatim>\<open>x or default\<close>: \<^verbatim>\<open>None\<close>, \<^verbatim>\<open>False\<close>, zero
  and empty strings and lists are false. An opaque object is taken to be true, which is
  Python's rule for an instance whose class defines neither \<^verbatim>\<open>__bool__\<close> nor
  \<^verbatim>\<open>__len__\<close>.
\<close>

fun truthy :: "pyval \<Rightarrow> bool" where
  "truthy PyNone = False"
| "truthy (PyBool b) = b"
| "truthy (PyInt n) = (n \<noteq> 0)"
| "truthy (PyStr s) = (s \<noteq> [])"
| "truthy (PyList xs) = (xs \<noteq> [])"
| "truthy (PyObj n) = True"

text \<open>\<^verbatim>\<open>x or d\<close>: \<open>x\<close> when it is true, otherwise \<open>d\<close>.\<close>

definition py_or :: "pyval \<Rightarrow> pyval \<Rightarrow> pyval" where
  "py_or x d = (if truthy x then x else d)"

text \<open>A raised exception, as a value.\<close>

datatype exn = Exception string

text \<open>
  Every name the driver imports, every method it calls on an object it was handed, and the
  built-ins whose result depends on the dynamic type of their argument (\<^verbatim>\<open>int(...)\<close>,
  \<^verbatim>\<open>"...{}".format(...)\<close>) is a call that leaves the driver's code. None of the called
  code is part of the repository, so a call is recorded with its arguments and answered by
  the environment. Keyword arguments are listed in the order the source writes them.
\<close>

datatype call =
    Create_firewall_resource_from_context pyval pyval pyval
      \<comment> \<open>\<^verbatim>\<open>create_firewall_resource_from_context(shell_name, supported_os, context)\<close>\<close>
  | Sessions_concurrency_limit pyval
      \<comment> \<open>\<^verbatim>\<open>resource_config.sessions_concurrency_limit\<close>\<close>
  | Builtin_int pyval
      \<comment> \<open>\<^verbatim>\<open>int(x)\<close>\<close>
  | Get_cli pyval
      \<comment> \<open>\<^verbatim>\<open>get_cli(session_pool_size)\<close>\<close>
  | Get_api pyval
      \<comment> \<open>\<^verbatim>\<open>get_api(context)\<close>\<close>
  | Get_logger_with_thread_id pyval
      \<comment> \<open>\<^verbatim>\<open>get_logger_with_thread_id(context)\<close>\<close>
  | Parse_custom_commands pyval
      \<comment> \<open>\<^verbatim>\<open>parse_custom_commands(custom_command)\<close>\<close>
  | Info pyval pyval
      \<comment> \<open>\<^verbatim>\<open>logger.info(message)\<close>\<close>
  | Format string pyval
      \<comment> \<open>\<^verbatim>\<open>"...{}".format(response)\<close>\<close>
  | ErrorHandlingContext pyval
      \<comment> \<open>\<^verbatim>\<open>ErrorHandlingContext(logger)\<close>\<close>
  | Enter pyval
      \<comment> \<open>\<^verbatim>\<open>manager.__enter__()\<close>\<close>
  | Exit pyval "exn option"
      \<comment> \<open>\<^verbatim>\<open>manager.__exit__(...)\<close>, with the exception in flight, if any\<close>
  | F5CliHandler pyval pyval pyval pyval
      \<comment> \<open>\<^verbatim>\<open>F5CliHandler(cli, resource_config, logger, api)\<close>\<close>
  | F5SnmpHandler pyval pyval pyval pyval
      \<comment> \<open>\<^verbatim>\<open>F5SnmpHandler(resource_config, logger, api, cli_handler)\<close>\<close>
  | F5FirewallAutoloadRunner pyval pyval pyval
      \<comment> \<open>\<^verbatim>\<open>F5FirewallAutoloadRunner(logger=, resource_config=, snmp_handler=)\<close>\<close>
  | Discover pyval
      \<comment> \<open>\<^verbatim>\<open>autoload_operations.discover()\<close>\<close>
  | RunCommandRunner pyval pyval
      \<comment> \<open>\<^verbatim>\<open>RunCommandRunner(logger=, cli_handler=)\<close>\<close>
  | Runner_run_custom_command pyval pyval
      \<comment> \<open>\<^verbatim>\<open>runner.run_custom_command(custom_command=)\<close>\<close>
  | Runner_run_custom_config_command pyval pyval
      \<comment> \<open>\<^verbatim>\<open>runner.run_custom_config_command(custom_command=)\<close>\<close>
  | F5ConfigurationRunner pyval pyval pyval pyval
      \<comment> \<open>\<^verbatim>\<open>F5ConfigurationRunner(cli_handler=, logger=, resource_config=, api=)\<close>\<close>
  | Runner_save pyval pyval pyval
      \<comment> \<open>\<^verbatim>\<open>runner.save(folder_path=, configuration_type=)\<close>\<close>
  | Runner_restore pyval pyval pyval pyval
      \<comment> \<open>\<^verbatim>\<open>runner.restore(path=, restore_method=, configuration_type=)\<close>\<close>
  | Runner_orchestration_save pyval pyval pyval
      \<comment> \<open>\<^verbatim>\<open>runner.orchestration_save(mode=, custom_params=)\<close>\<close>
  | Runner_orchestration_restore pyval pyval pyval
      \<comment> \<open>\<^verbatim>\<open>runner.orchestration_restore(saved_artifact_info=, custom_params=)\<close>\<close>
  | F5FirmwareRunner pyval pyval
      \<comment> \<open>\<^verbatim>\<open>F5FirmwareRunner(cli_handler=, logger=)\<close>\<close>
  | Runner_load_firmware pyval pyval
      \<comment> \<open>\<^verbatim>\<open>runner.load_firmware(path=)\<close>\<close>
  | StateRunner pyval pyval pyval pyval
      \<comment> \<open>\<^verbatim>\<open>StateRunner(logger=, api=, resource_config=, cli_handler=)\<close>\<close>
  | Runner_shutdown pyval
      \<comment> \<open>\<^verbatim>\<open>runner.shutdown()\<close>\<close>
  | Runner_health_check pyval
      \<comment> \<open>\<^verbatim>\<open>runner.health_check()\<close>\<close>
  | Lock_acquire
      \<comment> \<open>entering \<^verbatim>\<open>GlobalLock.lock\<close>\<close>
  | Lock_release
      \<comment> \<open>leaving \<^verbatim>\<open>GlobalLock.lock\<close>\<close>

type_synonym outcome = "exn + pyval"

type_synonym event = "call \<times> outcome"

section \<open>Programs: the driver's own control flow\<close>

text \<open>
  A method body is a tree: it returns, raises, reads or assigns the instance field
  \<^verbatim>\<open>self._cli\<close>, or makes a call and continues with the call's outcome.
\<close>

datatype 'a prog =
    Return 'a
  | Raise exn
  | Call call "outcome \<Rightarrow> 'a prog"
  | Load_cli "pyval \<Rightarrow> 'a prog"
  | Store_cli pyval "'a prog"

text \<open>
  \<open>handle p f h\<close> runs \<open>p\<close>, then \<open>f\<close> on its value or \<open>h\<close> on the exception
  it raised. Sequencing, where an exception propagates, is the special case \<open>bind\<close>.
\<close>

primrec handle :: "'a prog \<Rightarrow> ('a \<Rightarrow> 'b prog) \<Rightarrow> (exn \<Rightarrow> 'b prog) \<Rightarrow> 'b prog" where
  "handle (Return x) f h = f x"
| "handle (Raise e) f h = h e"
| "handle (Call c k) f h = Call c (\<lambda>r. handle (k r) f h)"
| "handle (Load_cli k) f h = Load_cli (\<lambda>v. handle (k v) f h)"
| "handle (Store_cli v p) f h = Store_cli v (handle p f h)"

definition bind :: "'a prog \<Rightarrow> ('a \<Rightarrow> 'b prog) \<Rightarrow> 'b prog" where
  "bind p f = handle p f Raise"

definition call :: "call \<Rightarrow> pyval prog" where
  "call c = Call c (\<lambda>r. case r of Inl e \<Rightarrow> Raise e | Inr v \<Rightarrow> Return v)"

definition load_cli :: "pyval prog" where
  "load_cli = Load_cli Return"

definition store_cli :: "pyval \<Rightarrow> unit prog" where
  "store_cli v = Store_cli v (Return ())"

text \<open>
  The statement \<^verbatim>\<open>with EXPR: BODY\<close> as the last statement of a function. The manager is
  created and entered; the body runs; \<^verbatim>\<open>__exit__\<close> is called with the exception the
  body raised, or with none. If the body returned a value the function returns it once
  \<^verbatim>\<open>__exit__\<close> is back. If the body raised, the exception is raised again unless
  \<^verbatim>\<open>__exit__\<close> answers with a true value, in which case the function runs off its end
  and returns \<^verbatim>\<open>None\<close>. An exception raised by \<^verbatim>\<open>__exit__\<close> itself propagates.
\<close>

definition with_stmt :: "call \<Rightarrow> pyval prog \<Rightarrow> pyval prog" where
  "with_stmt expr body =
     bind (call expr) (\<lambda>manager.
     bind (call (Enter manager)) (\<lambda>_.
     handle body
       (\<lambda>v. bind (call (Exit manager None)) (\<lambda>_. Return v))
       (\<lambda>e. bind (call (Exit manager (Some e))) (\<lambda>suppress.
              if truthy suppress then Return PyNone else Raise e))))"

text \<open>
  Modelled from the spec: the decorator \<^verbatim>\<open>GlobalLock.lock\<close> comes from
  \<^verbatim>\<open>cloudshell.shell.core.driver_utils\<close>, which is not in the repository. The spec
  describes it as a single mutual-exclusion lock, supplied by the host framework, that
  serializes the decorated operations of one driver instance. The decorated function
  therefore runs between acquiring and releasing the instance's lock, and the lock is
  released whether the function returns or raises.
\<close>

definition lock :: "'a prog \<Rightarrow> 'a prog" where
  "lock func =
     bind (call Lock_acquire) (\<lambda>_.
     handle func
       (\<lambda>v. bind (call Lock_release) (\<lambda>_. Return v))
       (\<lambda>e. bind (call Lock_release) (\<lambda>_. Raise e)))"

section \<open>Running a program against an environment\<close>

text \<open>
  The instance state of the driver: \<^verbatim>\<open>__init__\<close> defines the single field
  \<^verbatim>\<open>_cli\<close>. Theorems are stated over the record scheme, so that they also cover an
  instance carrying further fields (those of the base classes).
\<close>

record driver =
  cli :: pyval

text \<open>
  \<^verbatim>\<open>__init__\<close> sets \<^verbatim>\<open>self._cli = None\<close>: a driver that has not been initialized.
\<close>

definition new_driver :: driver where
  "new_driver = \<lparr>cli = PyNone\<rparr>"

text \<open>
  The environment answers a call knowing every earlier call and its outcome, so it stands
  for any deterministic behaviour of the collaborators, stateful or not. \<open>run\<close> gives
  the result of the program, the instance state it leaves and the events it added to
  the history \<open>h\<close>.
\<close>

type_synonym env = "event list \<Rightarrow> call \<Rightarrow> outcome"

primrec run ::
  "env \<Rightarrow> 'a prog \<Rightarrow> 'z driver_scheme \<Rightarrow> event list \<Rightarrow> (exn + 'a) \<times> 'z driver_scheme \<times> event list"
where
  "run ext (Return x) self h = (Inr x, self, [])"
| "run ext (Raise e) self h = (Inl e, self, [])"
| "run ext (Call c k) self h =
     (case run ext (k (ext h c)) self (h @ [(c, ext h c)]) of
        (res, self', tr) \<Rightarrow> (res, self', (c, ext h c) # tr))"
| "run ext (Load_cli k) self h = run ext (k (cli self)) self h"
| "run ext (Store_cli v p) self h = run ext p (self\<lparr>cli := v\<rparr>) h"

section \<open>The driver\<close>

text \<open>The class attributes \<^verbatim>\<open>SUPPORTED_OS\<close> and \<^verbatim>\<open>SHELL_NAME\<close>.\<close>

definition SUPPORTED_OS :: pyval where
  "SUPPORTED_OS = PyList [PyStr ''BIG[ -]?IP'']"

definition SHELL_NAME :: pyval where
  "SHELL_NAME = PyStr ''F5 BIG IP Firewall 2G''"

definition initialize :: "pyval \<Rightarrow> pyval prog" where
  "initialize context =
     bind (call (Create_firewall_resource_from_context SHELL_NAME SUPPORTED_OS context))
       (\<lambda>resource_config.
     bind (call (Sessions_concurrency_limit resource_config)) (\<lambda>limit.
     bind (call (Builtin_int limit)) (\<lambda>session_pool_size.
     bind (call (Get_cli session_pool_size)) (\<lambda>pool.
     bind (store_cli pool) (\<lambda>_.
     Return (PyStr ''Finished initializing''))))))"

definition get_inventory :: "pyval \<Rightarrow> pyval prog" where
  "get_inventory context = lock (
     bind (call (Get_logger_with_thread_id context)) (\<lambda>logger.
     bind (call (Info logger (PyStr ''Autoload command started''))) (\<lambda>_.
     with_stmt (ErrorHandlingContext logger) (
       bind (call (Create_firewall_resource_from_context SHELL_NAME SUPPORTED_OS context))
         (\<lambda>resource_config.
       bind (call (Get_api context)) (\<lambda>cs_api.
       bind load_cli (\<lambda>self_cli.
       bind (call (F5CliHandler self_cli resource_config logger cs_api)) (\<lambda>cli_handler.
       bind (call (F5SnmpHandler resource_config logger cs_api cli_handler)) (\<lambda>snmp_handler.
       bind (call (F5FirewallAutoloadRunner logger resource_config snmp_handler))
         (\<lambda>autoload_operations.
       bind (call (Discover autoload_operations)) (\<lambda>autoload_details.
       bind (call (Info logger (PyStr ''Autoload command completed''))) (\<lambda>_.
       Return autoload_details))))))))))))"

definition run_custom_command :: "pyval \<Rightarrow> pyval \<Rightarrow> pyval prog" where
  "run_custom_command context custom_command =
     bind (call (Get_logger_with_thread_id context)) (\<lambda>logger.
     bind (call (Info logger (PyStr ''Run custom command started''))) (\<lambda>_.
     with_stmt (ErrorHandlingContext logger) (
       bind (call (Create_firewall_resource_from_context SHELL_NAME SUPPORTED_OS context))
         (\<lambda>resource_config.
       bind (call (Get_api context)) (\<lambda>cs_api.
       bind load_cli (\<lambda>self_cli.
       bind (call (F5CliHandler self_cli resource_config logger cs_api)) (\<lambda>cli_handler.
       bind (call (RunCommandRunner logger cli_handler)) (\<lambda>send_command_operations.
       bind (call (Parse_custom_commands custom_command)) (\<lambda>commands.
       bind (call (Runner_run_custom_command send_command_operations commands)) (\<lambda>response.
       bind (call (Format ''Run custom command ended with response: {}'' response))
         (\<lambda>message.
       bind (call (Info logger message)) (\<lambda>_.
       Return response))))))))))))"

definition run_custom_config_command :: "pyval \<Rightarrow> pyval \<Rightarrow> pyval prog" where
  "run_custom_config_command context custom_command =
     bind (call (Get_logger_with_thread_id context)) (\<lambda>logger.
     bind (call (Info logger (PyStr ''Run custom config command started''))) (\<lambda>_.
     with_stmt (ErrorHandlingContext logger) (
       bind (call (Create_firewall_resource_from_context SHELL_NAME SUPPORTED_OS context))
         (\<lambda>resource_config.
       bind (call (Get_api context)) (\<lambda>cs_api.
       bind load_cli (\<lambda>self_cli.
       bind (call (F5CliHandler self_cli resource_config logger cs_api)) (\<lambda>cli_handler.
       bind (call (RunCommandRunner logger cli_handler)) (\<lambda>send_command_operations.
       bind (call (Parse_custom_commands custom_command)) (\<lambda>commands.
       bind (call (Runner_run_custom_config_command send_command_operations commands))
         (\<lambda>response.
       bind (call (Format ''Run custom config command ended with response: {}'' response))
         (\<lambda>message.
       bind (call (Info logger message)) (\<lambda>_.
       Return response))))))))))))"

definition save :: "pyval \<Rightarrow> pyval \<Rightarrow> pyval \<Rightarrow> pyval prog" where
  "save context folder_path configuration_type =
     bind (call (Get_logger_with_thread_id context)) (\<lambda>logger.
     bind (call (Info logger (PyStr ''Save command started''))) (\<lambda>_.
     with_stmt (ErrorHandlingContext logger) (
       bind (call (Create_firewall_resource_from_context SHELL_NAME SUPPORTED_OS context))
         (\<lambda>resource_config.
       bind (call (Get_api context)) (\<lambda>cs_api.
       bind (Return (py_or configuration_type (PyStr ''running''))) (\<lambda>configuration_type.
       bind load_cli (\<lambda>self_cli.
       bind (call (F5CliHandler self_cli resource_config logger cs_api)) (\<lambda>cli_handler.
       bind (call (F5ConfigurationRunner cli_handler logger resource_config cs_api))
         (\<lambda>configuration_operations.
       bind (call (Info logger (PyStr ''Saving started... ''))) (\<lambda>_.
       bind (call (Runner_save configuration_operations folder_path configuration_type))
         (\<lambda>response.
       bind (call (Info logger (PyStr ''Save command completed''))) (\<lambda>_.
       Return response))))))))))))"

definition restore :: "pyval \<Rightarrow> pyval \<Rightarrow> pyval \<Rightarrow> pyval \<Rightarrow> pyval prog" where
  "restore context path configuration_type restore_method = lock (
     bind (call (Get_logger_with_thread_id context)) (\<lambda>logger.
     bind (call (Info logger (PyStr ''Restore command started''))) (\<lambda>_.
     with_stmt (ErrorHandlingContext logger) (
       bind (call (Create_firewall_resource_from_context SHELL_NAME SUPPORTED_OS context))
         (\<lambda>resource_config.
       bind (call (Get_api context)) (\<lambda>cs_api.
       bind (Return (py_or configuration_type (PyStr ''running''))) (\<lambda>configuration_type.
       bind (Return (py_or restore_method (PyStr ''override''))) (\<lambda>restore_method.
       bind load_cli (\<lambda>self_cli.
       bind (call (F5CliHandler self_cli resource_config logger cs_api)) (\<lambda>cli_handler.
       bind (call (F5ConfigurationRunner cli_handler logger resource_config cs_api))
         (\<lambda>configuration_operations.
       bind (call (Info logger (PyStr ''Restoring started...''))) (\<lambda>_.
       bind (call (Runner_restore configuration_operations path restore_method
                     configuration_type)) (\<lambda>_.
       bind (call (Info logger (PyStr ''Restore command completed''))) (\<lambda>_.
       Return PyNone))))))))))))))"

definition load_firmware :: "pyval \<Rightarrow> pyval \<Rightarrow> pyval prog" where
  "load_firmware context path = lock (
     bind (call (Get_logger_with_thread_id context)) (\<lambda>logger.
     bind (call (Info logger (PyStr ''Load firmware command started''))) (\<lambda>_.
     with_stmt (ErrorHandlingContext logger) (
       bind (call (Create_firewall_resource_from_context SHELL_NAME SUPPORTED_OS context))
         (\<lambda>resource_config.
       bind (call (Get_api context)) (\<lambda>cs_api.
       bind load_cli (\<lambda>self_cli.
       bind (call (F5CliHandler self_cli resource_config logger cs_api)) (\<lambda>cli_handler.
       bind (call (Info logger (PyStr ''Start Loading Firmware...''))) (\<lambda>_.
       bind (call (F5FirmwareRunner cli_handler logger)) (\<lambda>firmware_operations.
       bind (call (Runner_load_firmware firmware_operations path)) (\<lambda>response.
       bind (call (Format ''Load firmware command completed with response: {}'' response))
         (\<lambda>message.
       bind (call (Info logger message)) (\<lambda>_.
       Return response)))))))))))))"

definition shutdown :: "pyval \<Rightarrow> pyval prog" where
  "shutdown context =
     bind (call (Get_logger_with_thread_id context)) (\<lambda>logger.
     bind (call (Info logger (PyStr ''Shutdown command started''))) (\<lambda>_.
     with_stmt (ErrorHandlingContext logger) (
       bind (call (Create_firewall_resource_from_context SHELL_NAME SUPPORTED_OS context))
         (\<lambda>resource_config.
       bind (call (Get_api context)) (\<lambda>cs_api.
       bind load_cli (\<lambda>self_cli.
       bind (call (F5CliHandler self_cli resource_config logger cs_api)) (\<lambda>cli_handler.
       bind (call (StateRunner logger cs_api resource_config cli_handler))
         (\<lambda>state_operations.
       bind (call (Runner_shutdown state_operations)) (\<lambda>response.
       bind (call (Format ''Shutdown command completed with response: {}'' response))
         (\<lambda>message.
       bind (call (Info logger message)) (\<lambda>_.
       Return response)))))))))))"

definition orchestration_save :: "pyval \<Rightarrow> pyval \<Rightarrow> pyval \<Rightarrow> pyval prog" where
  "orchestration_save context mode custom_params =
     bind (call (Get_logger_with_thread_id context)) (\<lambda>logger.
     bind (call (Info logger (PyStr ''Orchestration save command started''))) (\<lambda>_.
     with_stmt (ErrorHandlingContext logger) (
       bind (call (Create_firewall_resource_from_context SHELL_NAME SUPPORTED_OS context))
         (\<lambda>resource_config.
       bind (call (Get_api context)) (\<lambda>cs_api.
       bind (Return (py_or mode (PyStr ''shallow''))) (\<lambda>mode.
       bind load_cli (\<lambda>self_cli.
       bind (call (F5CliHandler self_cli resource_config logger cs_api)) (\<lambda>cli_handler.
       bind (call (F5ConfigurationRunner cli_handler logger resource_config cs_api))
         (\<lambda>configuration_operations.
       bind (call (Runner_orchestration_save configuration_operations mode custom_params))
         (\<lambda>response.
       bind (call (Format ''Orchestration save command completed with response: {}''
                     response)) (\<lambda>message.
       bind (call (Info logger message)) (\<lambda>_.
       Return response))))))))))))"

definition orchestration_restore :: "pyval \<Rightarrow> pyval \<Rightarrow> pyval \<Rightarrow> pyval prog" where
  "orchestration_restore context saved_artifact_info custom_params =
     bind (call (Get_logger_with_thread_id context)) (\<lambda>logger.
     bind (call (Info logger (PyStr ''Orchestration restore command started''))) (\<lambda>_.
     with_stmt (ErrorHandlingContext logger) (
       bind (call (Create_firewall_resource_from_context SHELL_NAME SUPPORTED_OS context))
         (\<lambda>resource_config.
       bind (call (Get_api context)) (\<lambda>cs_api.
       bind load_cli (\<lambda>self_cli.
       bind (call (F5CliHandler self_cli resource_config logger cs_api)) (\<lambda>cli_handler.
       bind (call (F5ConfigurationRunner cli_handler logger resource_config cs_api))
         (\<lambda>configuration_operations.
       bind (call (Runner_orchestration_restore configuration_operations
                     saved_artifact_info custom_params)) (\<lambda>_.
       bind (call (Info logger (PyStr ''Orchestration restore command completed''))) (\<lambda>_.
       Return PyNone))))))))))"

definition health_check :: "pyval \<Rightarrow> pyval prog" where
  "health_check context =
     bind (call (Get_logger_with_thread_id context)) (\<lambda>logger.
     bind (call (Info logger (PyStr ''Health check command started''))) (\<lambda>_.
     with_stmt (ErrorHandlingContext logger) (
       bind (call (Create_firewall_resource_from_context SHELL_NAME SUPPORTED_OS context))
         (\<lambda>resource_config.
       bind (call (Get_api context)) (\<lambda>cs_api.
       bind load_cli (\<lambda>self_cli.
       bind (call (F5CliHandler self_cli resource_config logger cs_api)) (\<lambda>cli_handler.
       bind (call (StateRunner logger cs_api resource_config cli_handler))
         (\<lambda>state_operations.
       bind (call (Runner_health_check state_operations)) (\<lambda>response.
       bind (call (Format ''Health check command ended with response: {}'' response))
         (\<lambda>message.
       bind (call (Info logger message)) (\<lambda>_.
       Return response)))))))))))"

text \<open>\<^verbatim>\<open>cleanup\<close>: the body is \<^verbatim>\<open>pass\<close>.\<close>

definition cleanup :: "pyval prog" where
  "cleanup = Return PyNone"

section \<open>The plugin surface\<close>

text \<open>
  The platform invokes the driver's public methods by name, with the arguments of the
  plugin interface. A request is one such invocation; \<open>invoke\<close> is the method call it
  stands for and \<open>method_name\<close> the name of the method in the class.
\<close>

datatype request =
    Initialize pyval
  | Get_inventory pyval
  | Run_custom_command pyval pyval
  | Run_custom_config_command pyval pyval
  | Save pyval pyval pyval
  | Restore pyval pyval pyval pyval
  | Load_firmware pyval pyval
  | Shutdown pyval
  | Orchestration_save pyval pyval pyval
  | Orchestration_restore pyval pyval pyval
  | Health_check pyval
  | Cleanup

fun invoke :: "request \<Rightarrow> pyval prog" where
  "invoke (Initialize context) = initialize context"
| "invoke (Get_inventory context) = get_inventory context"
| "invoke (Run_custom_command context custom_command) =
     run_custom_command context custom_command"
| "invoke (Run_custom_config_command context custom_command) =
     run_custom_config_command context custom_command"
| "invoke (Save context folder_path configuration_type) =
     save context folder_path configuration_type"
| "invoke (Restore context path configuration_type restore_method) =
     restore context path configuration_type restore_method"
| "invoke (Load_firmware context path) = load_firmware context path"
| "invoke (Shutdown context) = shutdown context"
| "invoke (Orchestration_save context mode custom_params) =
     orchestration_save context mode custom_params"
| "invoke (Orchestration_restore context saved_artifact_info custom_params) =
     orchestration_restore context saved_artifact_info custom_params"
| "invoke (Health_check context) = health_check context"
| "invoke Cleanup = cleanup"

fun method_name :: "request \<Rightarrow> string" where
  "method_name (Initialize _) = ''initialize''"
| "method_name (Get_inventory _) = ''get_inventory''"
| "method_name (Run_custom_command _ _) = ''run_custom_command''"
| "method_name (Run_custom_config_command _ _) = ''run_custom_config_command''"
| "method_name (Save _ _ _) = ''save''"
| "method_name (Restore _ _ _ _) = ''restore''"
| "method_name (Load_firmware _ _) = ''load_firmware''"
| "method_name (Shutdown _) = ''shutdown''"
| "method_name (Orchestration_save _ _ _) = ''orchestration_save''"
| "method_name (Orchestration_restore _ _ _) = ''orchestration_restore''"
| "method_name (Health_check _) = ''health_check''"
| "method_name Cleanup = ''cleanup''"

text \<open>The context argument of a request (\<^verbatim>\<open>cleanup\<close> takes none).\<close>

fun context_of :: "request \<Rightarrow> pyval option" where
  "context_of (Initialize context) = Some context"
| "context_of (Get_inventory context) = Some context"
| "context_of (Run_custom_command context _) = Some context"
| "context_of (Run_custom_config_command context _) = Some context"
| "context_of (Save context _ _) = Some context"
| "context_of (Restore context _ _ _) = Some context"
| "context_of (Load_firmware context _) = Some context"
| "context_of (Shutdown context) = Some context"
| "context_of (Orchestration_save context _ _) = Some context"
| "context_of (Orchestration_restore context _ _) = Some context"
| "context_of (Health_check context) = Some context"
| "context_of Cleanup = None"

text \<open>
  The ten operations that talk to the device: all but \<^verbatim>\<open>initialize\<close> and
  \<^verbatim>\<open>cleanup\<close>.
\<close>

fun device_facing :: "request \<Rightarrow> bool" where
  "device_facing (Initialize _) = False"
| "device_facing Cleanup = False"
| "device_facing _ = True"

text \<open>The operations the source decorates with \<^verbatim>\<open>@GlobalLock.lock\<close>.\<close>

fun decorated :: "request \<Rightarrow> bool" where
  "decorated (Get_inventory _) = True"
| "decorated (Restore _ _ _ _) = True"
| "decorated (Load_firmware _ _) = True"
| "decorated _ = False"

text \<open>
  The platform calling the driver several times in a row on one instance: each request
  runs on the instance state and the history the earlier ones left, whatever they
  returned or raised.
\<close>

fun serve ::
  "env \<Rightarrow> request list \<Rightarrow> 'z driver_scheme \<Rightarrow> event list \<Rightarrow> 'z driver_scheme \<times> event list"
where
  "serve ext [] self h = (self, [])"
| "serve ext (rq # rqs) self h =
     (case run ext (invoke rq) self h of
        (res, self', tr) \<Rightarrow>
          (case serve ext rqs self' (h @ tr) of
             (self'', tr') \<Rightarrow> (self'', tr @ tr')))"

section \<open>Reading a run\<close>

text \<open>
  The properties of the driver are properties of the events of a run. The functions below
  read a list of events; all of them compute.
\<close>

text \<open>No call of the run raised.\<close>

definition all_ok :: "event list \<Rightarrow> bool" where
  "all_ok tr = list_all (\<lambda>ev. \<not> isl (snd ev)) tr"

text \<open>The value a call returned in the run, if it was made and returned one.\<close>

definition outcome_of :: "event list \<Rightarrow> call \<Rightarrow> pyval option" where
  "outcome_of tr c = (case map_of tr c of Some (Inr v) \<Rightarrow> Some v | _ \<Rightarrow> None)"

fun is_boundary_call :: "call \<Rightarrow> bool" where
  "is_boundary_call (ErrorHandlingContext _) = True"
| "is_boundary_call (Enter _) = True"
| "is_boundary_call (Exit _ _) = True"
| "is_boundary_call _ = False"

fun is_lock_call :: "call \<Rightarrow> bool" where
  "is_lock_call Lock_acquire = True"
| "is_lock_call Lock_release = True"
| "is_lock_call _ = False"

fun is_get_cli :: "call \<Rightarrow> bool" where
  "is_get_cli (Get_cli _) = True"
| "is_get_cli _ = False"

fun is_info :: "pyval \<Rightarrow> call \<Rightarrow> bool" where
  "is_info logger (Info l _) = (l = logger)"
| "is_info logger _ = False"

text \<open>
  A call that respects the session pool \<open>pool\<close>: it does not create a pool, and if it
  constructs a CLI handler, the handler is given \<open>pool\<close>.
\<close>

fun reuses :: "pyval \<Rightarrow> call \<Rightarrow> bool" where
  "reuses pool (Get_cli _) = False"
| "reuses pool (F5CliHandler p _ _ _) = (p = pool)"
| "reuses pool _ = True"

text \<open>The runner object a call is made on, for the calls that are runner methods.\<close>

fun runner_of :: "call \<Rightarrow> pyval option" where
  "runner_of (Discover runner) = Some runner"
| "runner_of (Runner_run_custom_command runner _) = Some runner"
| "runner_of (Runner_run_custom_config_command runner _) = Some runner"
| "runner_of (Runner_save runner _ _) = Some runner"
| "runner_of (Runner_restore runner _ _ _) = Some runner"
| "runner_of (Runner_orchestration_save runner _ _) = Some runner"
| "runner_of (Runner_orchestration_restore runner _ _) = Some runner"
| "runner_of (Runner_load_firmware runner _) = Some runner"
| "runner_of (Runner_shutdown runner) = Some runner"
| "runner_of (Runner_health_check runner) = Some runner"
| "runner_of _ = None"

subsection \<open>The error-handling boundary\<close>

text \<open>
  The events after \<^verbatim>\<open>__enter__\<close> of \<open>manager\<close> has returned: calls that return, none
  of them a call of the boundary or of the lock, closed by the one call of
  \<^verbatim>\<open>__exit__\<close>. It receives no exception if every call returned; if a call raised,
  it is the very next call and receives that exception, and nothing follows it.
\<close>

fun inside :: "pyval \<Rightarrow> event list \<Rightarrow> bool" where
  "inside manager [] = False"
| "inside manager [(c, r)] = (c = Exit manager None)"
| "inside manager ((c, Inr v) # ev # tr) =
     (\<not> is_boundary_call c \<and> \<not> is_lock_call c \<and> inside manager (ev # tr))"
| "inside manager ((c, Inl e) # ev # tr) =
     (\<not> is_boundary_call c \<and> \<not> is_lock_call c \<and> fst ev = Exit manager (Some e) \<and> tr = [])"

text \<open>
  The events from \<^verbatim>\<open>with ErrorHandlingContext(logger):\<close> on: the manager is created
  from \<open>logger\<close> and entered, and the rest is \<open>inside\<close> it. If creating or entering
  raises, the run ends there.
\<close>

definition boundary :: "pyval \<Rightarrow> event list \<Rightarrow> bool" where
  "boundary logger tr =
     (case tr of
        [] \<Rightarrow> False
      | (c, r) # tr' \<Rightarrow> c = ErrorHandlingContext logger \<and>
          (case r of
             Inl e \<Rightarrow> tr' = []
           | Inr manager \<Rightarrow>
               (case tr' of
                  [] \<Rightarrow> False
                | (c', r') # body \<Rightarrow> c' = Enter manager \<and>
                    (case r' of Inl e \<Rightarrow> body = [] | Inr _ \<Rightarrow> inside manager body))))"

text \<open>
  A whole operation: the logger is obtained, one message is logged on it, and everything
  else happens within the boundary built from that logger. If obtaining the logger or
  logging the first message raises, the run ends there.
\<close>

definition guarded :: "event list \<Rightarrow> bool" where
  "guarded tr =
     (case tr of
        (Get_logger_with_thread_id context, r) # tr' \<Rightarrow>
          (case r of
             Inl e \<Rightarrow> tr' = []
           | Inr logger \<Rightarrow>
               (case tr' of
                  (Info l message, r') # tr'' \<Rightarrow> l = logger \<and>
                    (case r' of Inl e \<Rightarrow> tr'' = [] | Inr _ \<Rightarrow> boundary logger tr'')
                | _ \<Rightarrow> False))
      | _ \<Rightarrow> False)"

text \<open>
  A run of a decorated operation: the lock is acquired first and released last, and the
  events between the two satisfy \<open>P\<close>. If acquiring raises, the run ends there.
\<close>

definition within_lock :: "(event list \<Rightarrow> bool) \<Rightarrow> event list \<Rightarrow> bool" where
  "within_lock P tr =
     (case tr of
        (Lock_acquire, r) # tr' \<Rightarrow>
          (case r of
             Inl e \<Rightarrow> tr' = []
           | Inr _ \<Rightarrow> tr' \<noteq> [] \<and> fst (last tr') = Lock_release \<and> P (butlast tr'))
      | _ \<Rightarrow> False)"

text \<open>
  Modelled from the spec: \<^verbatim>\<open>ErrorHandlingContext\<close> comes from
  \<^verbatim>\<open>cloudshell.core.context.error_handling_context\<close>, which is not in the repository.
  The spec says the boundary logs and re-raises exceptions, so its \<^verbatim>\<open>__exit__\<close> does
  not answer an exception with a true value, which would swallow it. \<open>swallows\<close>
  recognises an event in which it did; a run is \<open>reraising\<close> when it has no such event.
\<close>

fun swallows :: "event \<Rightarrow> bool" where
  "swallows (Exit _ (Some _), Inr v) = truthy v"
| "swallows _ = False"

definition reraising :: "event list \<Rightarrow> bool" where
  "reraising tr = list_all (\<lambda>ev. \<not> swallows ev) tr"

subsection \<open>The per-call context and the delegation\<close>

text \<open>
  \<open>c\<close> constructs a runner from the objects of the per-call context: directly from the
  CLI handler or, for autoload, from the SNMP handler that was built on the CLI handler.
\<close>

definition makes_runner ::
  "pyval \<Rightarrow> pyval \<Rightarrow> pyval \<Rightarrow> pyval \<Rightarrow> event list \<Rightarrow> call \<Rightarrow> bool"
where
  "makes_runner logger resource_config api cli_handler tr c =
     (c = RunCommandRunner logger cli_handler \<or>
      c = F5ConfigurationRunner cli_handler logger resource_config api \<or>
      c = F5FirmwareRunner cli_handler logger \<or>
      c = StateRunner logger api resource_config cli_handler \<or>
      (case outcome_of tr (F5SnmpHandler resource_config logger api cli_handler) of
         Some snmp_handler \<Rightarrow> c = F5FirewallAutoloadRunner logger resource_config snmp_handler
       | None \<Rightarrow> False))"

text \<open>Some runner was constructed from the context, and a method was called on it.\<close>

definition delegates ::
  "pyval \<Rightarrow> pyval \<Rightarrow> pyval \<Rightarrow> pyval \<Rightarrow> event list \<Rightarrow> bool"
where
  "delegates logger resource_config api cli_handler tr =
     list_ex (\<lambda>ev. case snd ev of
                Inl e \<Rightarrow> False
              | Inr runner \<Rightarrow>
                  makes_runner logger resource_config api cli_handler tr (fst ev) \<and>
                  list_ex (\<lambda>ev'. runner_of (fst ev') = Some runner) tr) tr"

text \<open>
  Entry and exit are logged: the call right after obtaining the logger is
  \<^verbatim>\<open>logger.info\<close>, and \<^verbatim>\<open>logger.info\<close> is called again after the first runner
  method was called.
\<close>

definition logs_entry_and_exit :: "pyval \<Rightarrow> pyval \<Rightarrow> event list \<Rightarrow> bool" where
  "logs_entry_and_exit context logger tr =
     ((case dropWhile (\<lambda>ev. fst ev \<noteq> Get_logger_with_thread_id context) tr of
         _ # ev # _ \<Rightarrow> is_info logger (fst ev)
       | _ \<Rightarrow> False) \<and>
      (case dropWhile (\<lambda>ev. runner_of (fst ev) = None) tr of
         _ # rest \<Rightarrow> list_ex (\<lambda>ev. is_info logger (fst ev)) rest
       | [] \<Rightarrow> False))"

text \<open>
  The run builds the per-call context for \<open>context\<close> (logger, resource configuration and
  API handle from the context, CLI handler from the session pool \<open>pool\<close> and these
  three), delegates to a runner made from it, and logs entry and exit.
\<close>

definition dispatches :: "pyval \<Rightarrow> pyval \<Rightarrow> event list \<Rightarrow> bool" where
  "dispatches context pool tr =
     (case outcome_of tr (Get_logger_with_thread_id context) of
        None \<Rightarrow> False
      | Some logger \<Rightarrow>
     (case outcome_of tr
             (Create_firewall_resource_from_context SHELL_NAME SUPPORTED_OS context) of
        None \<Rightarrow> False
      | Some resource_config \<Rightarrow>
     (case outcome_of tr (Get_api context) of
        None \<Rightarrow> False
      | Some api \<Rightarrow>
     (case outcome_of tr (F5CliHandler pool resource_config logger api) of
        None \<Rightarrow> False
      | Some cli_handler \<Rightarrow>
          delegates logger resource_config api cli_handler tr \<and>
          logs_entry_and_exit context logger tr))))"

text \<open>The calls that make up a dispatch: logger, logging, API handle, CLI handler, runner.\<close>

fun is_dispatch_call :: "call \<Rightarrow> bool" where
  "is_dispatch_call (Get_logger_with_thread_id _) = True"
| "is_dispatch_call (Info _ _) = True"
| "is_dispatch_call (Get_api _) = True"
| "is_dispatch_call (F5CliHandler _ _ _ _) = True"
| "is_dispatch_call c = (runner_of c \<noteq> None)"

subsection \<open>Two environments to run the driver against\<close>

text \<open>
  An environment in which every collaborator answers: each kind of call returns an object
  of its own, \<^verbatim>\<open>__exit__\<close> answers as \<^verbatim>\<open>ErrorHandlingContext\<close> does (true without
  an exception, false with one), and the concurrency limit is the string \<^verbatim>\<open>"1"\<close>.
\<close>

definition demo_env :: env where
  "demo_env h c =
     (case c of
        Create_firewall_resource_from_context _ _ _ \<Rightarrow> Inr (PyObj 1)
      | Sessions_concurrency_limit _ \<Rightarrow> Inr (PyStr ''1'')
      | Builtin_int _ \<Rightarrow> Inr (PyInt 1)
      | Get_cli _ \<Rightarrow> Inr (PyObj 2)
      | Get_api _ \<Rightarrow> Inr (PyObj 3)
      | Get_logger_with_thread_id _ \<Rightarrow> Inr (PyObj 4)
      | Parse_custom_commands _ \<Rightarrow> Inr (PyObj 5)
      | Info _ _ \<Rightarrow> Inr PyNone
      | Format s v \<Rightarrow> Inr (PyStr s)
      | ErrorHandlingContext _ \<Rightarrow> Inr (PyObj 6)
      | Enter manager \<Rightarrow> Inr manager
      | Exit _ None \<Rightarrow> Inr (PyBool True)
      | Exit _ (Some _) \<Rightarrow> Inr (PyBool False)
      | F5CliHandler _ _ _ _ \<Rightarrow> Inr (PyObj 7)
      | F5SnmpHandler _ _ _ _ \<Rightarrow> Inr (PyObj 8)
      | F5FirewallAutoloadRunner _ _ _ \<Rightarrow> Inr (PyObj 9)
      | RunCommandRunner _ _ \<Rightarrow> Inr (PyObj 9)
      | F5ConfigurationRunner _ _ _ _ \<Rightarrow> Inr (PyObj 9)
      | F5FirmwareRunner _ _ \<Rightarrow> Inr (PyObj 9)
      | StateRunner _ _ _ _ \<Rightarrow> Inr (PyObj 9)
      | Lock_acquire \<Rightarrow> Inr (PyBool True)
      | Lock_release \<Rightarrow> Inr PyNone
      | _ \<Rightarrow> Inr (PyObj 10))"

text \<open>
  The same, except that the resource configuration cannot be built from the context:
  \<^verbatim>\<open>create_firewall_resource_from_context\<close> raises.
\<close>

definition failing_env :: env where
  "failing_env h c =
     (case c of
        Create_firewall_resource_from_context _ _ _ \<Rightarrow> Inl (Exception ''bad context'')
      | _ \<Rightarrow> demo_env h c)"

section \<open>A calculus for runs\<close>

text \<open>
  \<open>wp p Q s\<close>: whatever the environment answers, when \<open>p\<close> runs on an instance whose
  field \<^verbatim>\<open>_cli\<close> is \<open>s\<close>, its result, the final value of the field and the events of
  the run satisfy \<open>Q\<close>.
\<close>

primrec wp ::
  "'a prog \<Rightarrow> ((exn + 'a) \<Rightarrow> pyval \<Rightarrow> event list \<Rightarrow> bool) \<Rightarrow> pyval \<Rightarrow> bool"
where
  "wp (Return x) Q s = Q (Inr x) s []"
| "wp (Raise e) Q s = Q (Inl e) s []"
| "wp (Call c k) Q s = (\<forall>r. wp (k r) (\<lambda>res s' tr. Q res s' ((c, r) # tr)) s)"
| "wp (Load_cli k) Q s = wp (k s) Q s"
| "wp (Store_cli v p) Q s = wp p Q v"

section \<open>Several threads on one driver instance\<close>

text \<open>
  The platform may invoke operations of one driver instance from several threads. A
  thread is the operation it was asked to perform, the part of the method that is still
  to run, and the calls it has made so far. The threads share the instance and its lock.
\<close>

record thread =
  operation :: request
  todo :: "pyval prog"
  past :: "event list"

record system =
  threads :: "thread list"
  holder :: "nat option"
  shared :: driver

definition spawn :: "request \<Rightarrow> thread" where
  "spawn rq = \<lparr>operation = rq, todo = invoke rq, past = []\<rparr>"

text \<open>One thread per request, none of them started, the lock free.\<close>

definition start :: "request list \<Rightarrow> driver \<Rightarrow> system" where
  "start rqs self = \<lparr>threads = map spawn rqs, holder = None, shared = self\<rparr>"

fun finished :: "'a prog \<Rightarrow> bool" where
  "finished (Return _) = True"
| "finished (Raise _) = True"
| "finished _ = False"

text \<open>A thread runs its operation from its first call until the method has returned or raised.\<close>

definition running :: "thread \<Rightarrow> bool" where
  "running t = (past t \<noteq> [] \<and> \<not> finished (todo t))"

text \<open>Thread \<open>i\<close> has made the call \<open>c\<close>, which answered \<open>r\<close>, and goes on with \<open>k r\<close>.\<close>

definition proceed :: "nat \<Rightarrow> call \<Rightarrow> outcome \<Rightarrow> (outcome \<Rightarrow> pyval prog) \<Rightarrow> system \<Rightarrow> system" where
  "proceed i c r k sys =
     sys\<lparr>threads := (threads sys)
            [i := (threads sys ! i)\<lparr>todo := k r, past := past (threads sys ! i) @ [(c, r)]\<rparr>]\<rparr>"

text \<open>
  Modelled from the spec: the lock of \<^verbatim>\<open>GlobalLock\<close> is the host framework's and not in
  the repository; the spec calls it a single mutual-exclusion lock per driver instance.
  So acquiring succeeds only while no thread holds the lock, and the thread waits
  otherwise; releasing frees the lock, and fails on a lock that nobody holds.

  One step of thread \<open>i\<close>: its next call, answered by \<open>r\<close> unless it is a call of the
  lock, or its next access to \<^verbatim>\<open>self._cli\<close>. There is no step (\<open>None\<close>) when the
  thread has finished or waits for the lock.
\<close>

definition step_thread :: "nat \<Rightarrow> outcome \<Rightarrow> system \<Rightarrow> system option" where
  "step_thread i r sys =
     (case todo (threads sys ! i) of
        Return v \<Rightarrow> None
      | Raise e \<Rightarrow> None
      | Call c k \<Rightarrow>
          if c = Lock_acquire then
            (if holder sys = None
             then Some ((proceed i c (Inr PyNone) k sys)\<lparr>holder := Some i\<rparr>)
             else None)
          else if c = Lock_release then
            (if holder sys = None
             then Some (proceed i c (Inl (Exception ''release unlocked lock'')) k sys)
             else Some ((proceed i c (Inr PyNone) k sys)\<lparr>holder := None\<rparr>))
          else Some (proceed i c r k sys)
      | Load_cli k \<Rightarrow>
          Some (sys\<lparr>threads := (threads sys)
                  [i := (threads sys ! i)\<lparr>todo := k (cli (shared sys))\<rparr>]\<rparr>)
      | Store_cli v p \<Rightarrow>
          Some (sys\<lparr>threads := (threads sys)[i := (threads sys ! i)\<lparr>todo := p\<rparr>],
                    shared := (shared sys)\<lparr>cli := v\<rparr>\<rparr>))"

text \<open>
  A schedule says which thread moves next and what its call is answered. Running a
  schedule fails (\<open>None\<close>) if it picks a thread that does not exist or cannot move.
\<close>

fun run_schedule :: "(nat \<times> outcome) list \<Rightarrow> system \<Rightarrow> system option" where
  "run_schedule [] sys = Some sys"
| "run_schedule ((i, r) # sched) sys =
     (if i < length (threads sys)
      then (case step_thread i r sys of
              None \<Rightarrow> None
            | Some sys' \<Rightarrow> run_schedule sched sys')
      else None)"

text \<open>
  Two shapes of programs. A \<open>lockfree\<close> program never calls the lock. A
  \<open>releasing\<close> program is the remainder of a decorated method after the lock was
  acquired: it does not acquire again, it cannot end without releasing, and once it has
  released it has ended.
\<close>

primrec lockfree :: "'a prog \<Rightarrow> bool" where
  "lockfree (Return x) = True"
| "lockfree (Raise e) = True"
| "lockfree (Call c k) = (\<not> is_lock_call c \<and> (\<forall>r. lockfree (k r)))"
| "lockfree (Load_cli k) = (\<forall>v. lockfree (k v))"
| "lockfree (Store_cli v p) = lockfree p"

primrec releasing :: "'a prog \<Rightarrow> bool" where
  "releasing (Return x) = False"
| "releasing (Raise e) = False"
| "releasing (Call c k) =
     (if c = Lock_release then (\<forall>r. finished (k r))
      else c \<noteq> Lock_acquire \<and> (\<forall>r. releasing (k r)))"
| "releasing (Load_cli k) = (\<forall>v. releasing (k v))"
| "releasing (Store_cli v p) = releasing p"

text \<open>
  What holds of thread \<open>i\<close> in every state the system can reach, given who holds the
  lock: a thread of a decorated operation holds the lock exactly from its first call until
  it has finished; a thread of another operation never holds it and never calls it.
\<close>

definition thread_ok :: "nat option \<Rightarrow> nat \<Rightarrow> thread \<Rightarrow> bool" where
  "thread_ok hld i t =
     (if decorated (operation t)
      then (hld = Some i \<and> past t \<noteq> [] \<and> releasing (todo t)) \<or>
           (hld \<noteq> Some i \<and>
              ((past t = [] \<and> todo t = invoke (operation t)) \<or> finished (todo t)))
      else hld \<noteq> Some i \<and> lockfree (todo t))"

definition system_ok :: "request list \<Rightarrow> system \<Rightarrow> bool" where
  "system_ok rqs sys =
     (map operation (threads sys) = rqs \<and>
      (\<forall>i < length (threads sys). thread_ok (holder sys) i (threads sys ! i)))"

section \<open>Properties\<close>

subsection \<open>Soundness of the calculus\<close>

lemma wp_sound:
  "wp p Q (cli self) \<Longrightarrow> run ext p self h = (res, self', tr) \<Longrightarrow>
     Q res (cli self') tr \<and> self' = self\<lparr>cli := cli self'\<rparr>"
proof (induction p arbitrary: Q self h res self' tr)
  case (Call c k)
  obtain tr0 where r: "run ext (k (ext h c)) self (h @ [(c, ext h c)]) = (res, self', tr0)"
    and tr: "tr = (c, ext h c) # tr0"
    using Call.prems(2) by (auto split: prod.splits)
  have "wp (k (ext h c)) (\<lambda>res s' tr. Q res s' ((c, ext h c) # tr)) (cli self)"
    using Call.prems(1) by simp
  from Call.IH[OF rangeI this r] tr show ?case by simp
next
  case (Load_cli k)
  have "wp (k (cli self)) Q (cli self)" using Load_cli.prems(1) by simp
  moreover have "run ext (k (cli self)) self h = (res, self', tr)"
    using Load_cli.prems(2) by simp
  ultimately show ?case using Load_cli.IH[OF rangeI] by blast
next
  case (Store_cli v p)
  have "wp p Q (cli (self\<lparr>cli := v\<rparr>))" using Store_cli.prems(1) by simp
  moreover have "run ext p (self\<lparr>cli := v\<rparr>) h = (res, self', tr)"
    using Store_cli.prems(2) by simp
  ultimately have "Q res (cli self') tr \<and> self' = self\<lparr>cli := v\<rparr>\<lparr>cli := cli self'\<rparr>"
    by (rule Store_cli.IH)
  then show ?case by simp
qed auto

lemma run_wp:
  assumes "run ext p self h = (res, self', tr)" and "wp p Q (cli self)"
  shows "Q res (cli self') tr"
  using wp_sound[OF assms(2,1)] by simp

lemma run_frame:
  assumes "run ext p self h = (res, self', tr)"
  shows "self' = self\<lparr>cli := cli self'\<rparr>"
proof -
  have "wp p (\<lambda>_ _ _. True) s" for s
    by (induction p arbitrary: s) auto
  from wp_sound[OF this assms] show ?thesis by simp
qed

lemma wp_handle:
  "wp (handle p f g) Q s =
     wp p (\<lambda>res s' tr. case res of
              Inr x \<Rightarrow> wp (f x) (\<lambda>res' s'' tr'. Q res' s'' (tr @ tr')) s'
            | Inl e \<Rightarrow> wp (g e) (\<lambda>res' s'' tr'. Q res' s'' (tr @ tr')) s') s"
  by (induction p arbitrary: Q s) (simp_all cong: sum.case_cong)

lemma wp_bind:
  "wp (bind p f) Q s =
     wp p (\<lambda>res s' tr. case res of
              Inr x \<Rightarrow> wp (f x) (\<lambda>res' s'' tr'. Q res' s'' (tr @ tr')) s'
            | Inl e \<Rightarrow> Q (Inl e) s' tr) s"
  by (simp add: bind_def wp_handle cong: sum.case_cong)

lemma wp_call:
  "wp (call c) Q s = ((\<forall>e. Q (Inl e) s [(c, Inl e)]) \<and> (\<forall>v. Q (Inr v) s [(c, Inr v)]))"
  by (auto simp: call_def split: sum.splits)

lemma wp_load_cli: "wp load_cli Q s = Q (Inr s) s []"
  by (simp add: load_cli_def)

lemma wp_store_cli: "wp (store_cli v) Q s = Q (Inr ()) v []"
  by (simp add: store_cli_def)

lemmas wp_simps = wp_bind wp_handle wp_call wp_load_cli wp_store_cli

lemmas method_defs = initialize_def get_inventory_def run_custom_command_def
  run_custom_config_command_def save_def restore_def load_firmware_def shutdown_def
  orchestration_save_def orchestration_restore_def health_check_def cleanup_def
  lock_def with_stmt_def

lemmas eval_defs = method_defs bind_def call_def load_cli_def store_cli_def
  demo_env_def failing_env_def new_driver_def py_or_def

lemma run_eta:
  "run ext p self h = (fst (run ext p self h), fst (snd (run ext p self h)), snd (snd (run ext p self h)))"
  by simp

subsection \<open>cleanup\<close>

text \<open>
  C10. \<^verbatim>\<open>cleanup\<close> is a no-op: on every driver state and in every environment it
  returns \<^verbatim>\<open>None\<close>, leaves the instance as it was (the field \<^verbatim>\<open>_cli\<close> and any
  other field), and makes no call at all; in particular it closes no session of the pool
  the driver holds.
\<close>

theorem cleanup_is_a_no_op:
  "run ext cleanup self h = (Inr PyNone, self, [])"
  by (simp add: cleanup_def)

subsection \<open>initialize\<close>

text \<open>
  C9. Whenever \<^verbatim>\<open>initialize\<close> succeeds it returns exactly the string
  \<^verbatim>\<open>"Finished initializing"\<close>, and the instance it leaves is the one it started on with
  the field \<^verbatim>\<open>_cli\<close> set to the session pool that \<^verbatim>\<open>get_cli\<close>, its last call,
  returned; no other field changes.
\<close>

theorem initialize_returns_and_sets_cli:
  assumes "run ext (initialize context) self h = (Inr v, self', tr)"
  shows "v = PyStr ''Finished initializing'' \<and>
         (\<exists>size pool. tr \<noteq> [] \<and> last tr = (Get_cli size, Inr pool) \<and>
                      self' = self\<lparr>cli := pool\<rparr>)"
proof -
  have "wp (initialize context)
          (\<lambda>res s' tr. \<forall>v. res = Inr v \<longrightarrow> v = PyStr ''Finished initializing'' \<and>
             (\<exists>size. tr \<noteq> [] \<and> last tr = (Get_cli size, Inr s'))) (cli self)"
    by (simp add: initialize_def wp_simps)
  from wp_sound[OF this assms] show ?thesis by metis
qed

theorem initialize_returns_and_sets_cli_witness:
  "run demo_env (initialize (PyObj 0)) new_driver [] =
     (Inr (PyStr ''Finished initializing''), \<lparr>cli = PyObj 2\<rparr>,
      [(Create_firewall_resource_from_context SHELL_NAME SUPPORTED_OS (PyObj 0), Inr (PyObj 1)),
       (Sessions_concurrency_limit (PyObj 1), Inr (PyStr ''1'')),
       (Builtin_int (PyStr ''1''), Inr (PyInt 1)),
       (Get_cli (PyInt 1), Inr (PyObj 2))])
   \<and> \<lparr>cli = PyObj 2\<rparr> = new_driver\<lparr>cli := PyObj 2\<rparr>"
proof -
  have r: "run demo_env (initialize (PyObj 0)) new_driver [] =
     (Inr (PyStr ''Finished initializing''), \<lparr>cli = PyObj 2\<rparr>,
      [(Create_firewall_resource_from_context SHELL_NAME SUPPORTED_OS (PyObj 0), Inr (PyObj 1)),
       (Sessions_concurrency_limit (PyObj 1), Inr (PyStr ''1'')),
       (Builtin_int (PyStr ''1''), Inr (PyInt 1)),
       (Get_cli (PyInt 1), Inr (PyObj 2))])"
    by (simp add: eval_defs)
  from initialize_returns_and_sets_cli[OF r] r show ?thesis by simp
qed

text \<open>
  C3. In every run of \<^verbatim>\<open>initialize\<close>, whenever \<^verbatim>\<open>get_cli\<close> is called, the run up
  to there is exactly: the resource configuration is built from the context, its
  attribute \<^verbatim>\<open>sessions_concurrency_limit\<close> is read, \<^verbatim>\<open>int\<close> converts the value read,
  and \<^verbatim>\<open>get_cli\<close> receives exactly what \<^verbatim>\<open>int\<close> returned. When \<^verbatim>\<open>initialize\<close>
  succeeds, \<^verbatim>\<open>get_cli\<close> was called and the pool it returned is the one in \<^verbatim>\<open>_cli\<close>.
\<close>

theorem initialize_hands_limit_to_get_cli:
  assumes "run ext (initialize context) self h = (res, self', tr)"
  shows "(\<forall>size r. (Get_cli size, r) \<in> set tr \<longrightarrow>
            (\<exists>resource_config limit.
               tr = [(Create_firewall_resource_from_context SHELL_NAME SUPPORTED_OS context,
                        Inr resource_config),
                     (Sessions_concurrency_limit resource_config, Inr limit),
                     (Builtin_int limit, Inr size),
                     (Get_cli size, r)]))
       \<and> (\<not> isl res \<longrightarrow> (\<exists>size pool. (Get_cli size, Inr pool) \<in> set tr \<and> cli self' = pool))"
proof -
  have "wp (initialize context)
          (\<lambda>res s' tr.
             (\<forall>size r. (Get_cli size, r) \<in> set tr \<longrightarrow>
                (\<exists>resource_config limit.
                   tr = [(Create_firewall_resource_from_context SHELL_NAME SUPPORTED_OS context,
                            Inr resource_config),
                         (Sessions_concurrency_limit resource_config, Inr limit),
                         (Builtin_int limit, Inr size),
                         (Get_cli size, r)]))
           \<and> (\<not> isl res \<longrightarrow> (\<exists>size. (Get_cli size, Inr s') \<in> set tr))) (cli self)"
    by (simp add: initialize_def wp_simps)
  from run_wp[OF assms this] show ?thesis by simp
qed

theorem initialize_hands_limit_to_get_cli_witness:
  "run demo_env (initialize (PyObj 0)) new_driver [] =
     (Inr (PyStr ''Finished initializing''), \<lparr>cli = PyObj 2\<rparr>,
      [(Create_firewall_resource_from_context SHELL_NAME SUPPORTED_OS (PyObj 0), Inr (PyObj 1)),
       (Sessions_concurrency_limit (PyObj 1), Inr (PyStr ''1'')),
       (Builtin_int (PyStr ''1''), Inr (PyInt 1)),
       (Get_cli (PyInt 1), Inr (PyObj 2))])
   \<and> (Get_cli (PyInt 1), Inr (PyObj 2)) \<in>
       set [(Create_firewall_resource_from_context SHELL_NAME SUPPORTED_OS (PyObj 0), Inr (PyObj 1)),
       (Sessions_concurrency_limit (PyObj 1), Inr (PyStr ''1'')),
       (Builtin_int (PyStr ''1''), Inr (PyInt 1)),
       (Get_cli (PyInt 1), Inr (PyObj 2))]
   \<and> \<not> isl (Inr (PyStr ''Finished initializing'') :: exn + pyval)"
proof -
  have r: "run demo_env (initialize (PyObj 0)) new_driver [] =
     (Inr (PyStr ''Finished initializing''), \<lparr>cli = PyObj 2\<rparr>,
      [(Create_firewall_resource_from_context SHELL_NAME SUPPORTED_OS (PyObj 0), Inr (PyObj 1)),
       (Sessions_concurrency_limit (PyObj 1), Inr (PyStr ''1'')),
       (Builtin_int (PyStr ''1''), Inr (PyInt 1)),
       (Get_cli (PyInt 1), Inr (PyObj 2))])"
    by (simp add: eval_defs)
  from initialize_hands_limit_to_get_cli[OF r] r show ?thesis by simp
qed

subsection \<open>Defaults for empty arguments\<close>

lemma save_default:
  "wp (save context folder_path configuration_type)
     (\<lambda>res s' tr.
        (\<forall>runner fp ct r. (Runner_save runner fp ct, r) \<in> set tr \<longrightarrow>
            fp = folder_path \<and>
            ct = (if truthy configuration_type then configuration_type else PyStr ''running''))
      \<and> (all_ok tr \<longrightarrow> (\<exists>runner fp ct r. (Runner_save runner fp ct, r) \<in> set tr))) s"
  by (simp add: save_def with_stmt_def wp_simps all_ok_def py_or_def)

lemma restore_default:
  "wp (restore context path configuration_type restore_method)
     (\<lambda>res s' tr.
        (\<forall>runner p m ct r. (Runner_restore runner p m ct, r) \<in> set tr \<longrightarrow>
            p = path \<and>
            m = (if truthy restore_method then restore_method else PyStr ''override'') \<and>
            ct = (if truthy configuration_type then configuration_type else PyStr ''running''))
      \<and> (all_ok tr \<longrightarrow> (\<exists>runner p m ct r. (Runner_restore runner p m ct, r) \<in> set tr))) s"
  by (simp add: restore_def lock_def with_stmt_def wp_simps all_ok_def py_or_def)

lemma orchestration_save_default:
  "wp (orchestration_save context mode custom_params)
     (\<lambda>res s' tr.
        (\<forall>runner m cp r. (Runner_orchestration_save runner m cp, r) \<in> set tr \<longrightarrow>
            m = (if truthy mode then mode else PyStr ''shallow'') \<and> cp = custom_params)
      \<and> (all_ok tr \<longrightarrow> (\<exists>runner m cp r. (Runner_orchestration_save runner m cp, r) \<in> set tr))) s"
  by (simp add: orchestration_save_def with_stmt_def wp_simps all_ok_def py_or_def)

text \<open>
  C8. Whenever the runner is called, \<^verbatim>\<open>save\<close> and \<^verbatim>\<open>restore\<close> hand it
  \<^verbatim>\<open>"running"\<close> for an empty (false) \<^verbatim>\<open>configuration_type\<close>, \<^verbatim>\<open>restore\<close> hands it
  \<^verbatim>\<open>"override"\<close> for an empty \<^verbatim>\<open>restore_method\<close>, and \<^verbatim>\<open>orchestration_save\<close>
  hands it \<^verbatim>\<open>"shallow"\<close> for an empty \<^verbatim>\<open>mode\<close>; a non-empty argument is handed
  over unchanged, as are the path and the custom parameters. In a run in which no call
  raises, the runner is called.
\<close>

theorem empty_arguments_get_defaults:
  "(run ext (save context folder_path configuration_type) self h = (res, self', tr) \<longrightarrow>
      (\<forall>runner fp ct r. (Runner_save runner fp ct, r) \<in> set tr \<longrightarrow>
          fp = folder_path \<and>
          ct = (if truthy configuration_type then configuration_type else PyStr ''running''))
      \<and> (all_ok tr \<longrightarrow> (\<exists>runner fp ct r. (Runner_save runner fp ct, r) \<in> set tr)))
   \<and> (run ext (restore context path configuration_type restore_method) self h = (res, self', tr) \<longrightarrow>
      (\<forall>runner p m ct r. (Runner_restore runner p m ct, r) \<in> set tr \<longrightarrow>
          p = path \<and>
          m = (if truthy restore_method then restore_method else PyStr ''override'') \<and>
          ct = (if truthy configuration_type then configuration_type else PyStr ''running''))
      \<and> (all_ok tr \<longrightarrow> (\<exists>runner p m ct r. (Runner_restore runner p m ct, r) \<in> set tr)))
   \<and> (run ext (orchestration_save context mode custom_params) self h = (res, self', tr) \<longrightarrow>
      (\<forall>runner m cp r. (Runner_orchestration_save runner m cp, r) \<in> set tr \<longrightarrow>
          m = (if truthy mode then mode else PyStr ''shallow'') \<and> cp = custom_params)
      \<and> (all_ok tr \<longrightarrow>
            (\<exists>runner m cp r. (Runner_orchestration_save runner m cp, r) \<in> set tr)))"
proof -
  have a: "run ext (save context folder_path configuration_type) self h = (res, self', tr) \<longrightarrow>
      (\<forall>runner fp ct r. (Runner_save runner fp ct, r) \<in> set tr \<longrightarrow>
          fp = folder_path \<and>
          ct = (if truthy configuration_type then configuration_type else PyStr ''running''))
      \<and> (all_ok tr \<longrightarrow> (\<exists>runner fp ct r. (Runner_save runner fp ct, r) \<in> set tr))"
  proof
    assume r: "run ext (save context folder_path configuration_type) self h = (res, self', tr)"
    from run_wp[OF r save_default] show
      "(\<forall>runner fp ct r. (Runner_save runner fp ct, r) \<in> set tr \<longrightarrow>
          fp = folder_path \<and>
          ct = (if truthy configuration_type then configuration_type else PyStr ''running''))
      \<and> (all_ok tr \<longrightarrow> (\<exists>runner fp ct r. (Runner_save runner fp ct, r) \<in> set tr))" .
  qed
  have b: "run ext (restore context path configuration_type restore_method) self h = (res, self', tr) \<longrightarrow>
      (\<forall>runner p m ct r. (Runner_restore runner p m ct, r) \<in> set tr \<longrightarrow>
          p = path \<and>
          m = (if truthy restore_method then restore_method else PyStr ''override'') \<and>
          ct = (if truthy configuration_type then configuration_type else PyStr ''running''))
      \<and> (all_ok tr \<longrightarrow> (\<exists>runner p m ct r. (Runner_restore runner p m ct, r) \<in> set tr))"
  proof
    assume r: "run ext (restore context path configuration_type restore_method) self h = (res, self', tr)"
    from run_wp[OF r restore_default] show
      "(\<forall>runner p m ct r. (Runner_restore runner p m ct, r) \<in> set tr \<longrightarrow>
          p = path \<and>
          m = (if truthy restore_method then restore_method else PyStr ''override'') \<and>
          ct = (if truthy configuration_type then configuration_type else PyStr ''running''))
      \<and> (all_ok tr \<longrightarrow> (\<exists>runner p m ct r. (Runner_restore runner p m ct, r) \<in> set tr))" .
  qed
  have c: "run ext (orchestration_save context mode custom_params) self h = (res, self', tr) \<longrightarrow>
      (\<forall>runner m cp r. (Runner_orchestration_save runner m cp, r) \<in> set tr \<longrightarrow>
          m = (if truthy mode then mode else PyStr ''shallow'') \<and> cp = custom_params)
      \<and> (all_ok tr \<longrightarrow>
            (\<exists>runner m cp r. (Runner_orchestration_save runner m cp, r) \<in> set tr))"
  proof
    assume r: "run ext (orchestration_save context mode custom_params) self h = (res, self', tr)"
    from run_wp[OF r orchestration_save_default] show
      "(\<forall>runner m cp r. (Runner_orchestration_save runner m cp, r) \<in> set tr \<longrightarrow>
          m = (if truthy mode then mode else PyStr ''shallow'') \<and> cp = custom_params)
      \<and> (all_ok tr \<longrightarrow>
            (\<exists>runner m cp r. (Runner_orchestration_save runner m cp, r) \<in> set tr))" .
  qed
  from a b c show ?thesis by (intro conjI)
qed

theorem empty_arguments_get_defaults_witness:
  "(Runner_save (PyObj 9) (PyStr ''ftp://host/backups'') (PyStr ''running''), Inr (PyObj 10))
     \<in> set (snd (snd (run demo_env
          (save (PyObj 0) (PyStr ''ftp://host/backups'') (PyStr [])) new_driver [])))
   \<and> (Runner_restore (PyObj 9) (PyStr ''ftp://host/backups/cfg'') (PyStr ''override'')
         (PyStr ''running''), Inr (PyObj 10))
     \<in> set (snd (snd (run demo_env
          (restore (PyObj 0) (PyStr ''ftp://host/backups/cfg'') PyNone PyNone) new_driver [])))
   \<and> (Runner_orchestration_save (PyObj 9) (PyStr ''deep'') (PyStr ''{}''), Inr (PyObj 10))
     \<in> set (snd (snd (run demo_env
          (orchestration_save (PyObj 0) (PyStr ''deep'') (PyStr ''{}'')) new_driver [])))
   \<and> all_ok (snd (snd (run demo_env
          (save (PyObj 0) (PyStr ''ftp://host/backups'') (PyStr [])) new_driver [])))"
proof -
  note a = empty_arguments_get_defaults [THEN conjunct1, THEN mp,
      OF run_eta [of demo_env "save (PyObj 0) (PyStr ''ftp://host/backups'') (PyStr [])"
        new_driver "[]"]]
  note b = empty_arguments_get_defaults [THEN conjunct2, THEN conjunct1, THEN mp,
      OF run_eta [of demo_env "restore (PyObj 0) (PyStr ''ftp://host/backups/cfg'') PyNone PyNone"
        new_driver "[]"]]
  note c = empty_arguments_get_defaults [THEN conjunct2, THEN conjunct2, THEN mp,
      OF run_eta [of demo_env "orchestration_save (PyObj 0) (PyStr ''deep'') (PyStr ''{}'')"
        new_driver "[]"]]
  from a b c show ?thesis by (simp add: eval_defs all_ok_def)
qed

subsection \<open>Custom commands\<close>

lemma run_custom_command_forwards:
  "wp (run_custom_command context custom_command)
     (\<lambda>res s' tr.
        (\<forall>runner commands r. (Runner_run_custom_command runner commands, r) \<in> set tr \<longrightarrow>
           (\<exists>logger resource_config api cli_handler.
              (Get_logger_with_thread_id context, Inr logger) \<in> set tr \<and>
              (Create_firewall_resource_from_context SHELL_NAME SUPPORTED_OS context,
                 Inr resource_config) \<in> set tr \<and>
              (Get_api context, Inr api) \<in> set tr \<and>
              (F5CliHandler s resource_config logger api, Inr cli_handler) \<in> set tr \<and>
              (RunCommandRunner logger cli_handler, Inr runner) \<in> set tr \<and>
              (Parse_custom_commands custom_command, Inr commands) \<in> set tr))
      \<and> (\<forall>v. res = Inr v \<and> reraising tr \<longrightarrow>
            (\<exists>runner commands. (Runner_run_custom_command runner commands, Inr v) \<in> set tr))) s"
  by (simp add: run_custom_command_def with_stmt_def wp_simps reraising_def)

lemma run_custom_config_command_forwards:
  "wp (run_custom_config_command context custom_command)
     (\<lambda>res s' tr.
        (\<forall>runner commands r. (Runner_run_custom_config_command runner commands, r) \<in> set tr \<longrightarrow>
           (\<exists>logger resource_config api cli_handler.
              (Get_logger_with_thread_id context, Inr logger) \<in> set tr \<and>
              (Create_firewall_resource_from_context SHELL_NAME SUPPORTED_OS context,
                 Inr resource_config) \<in> set tr \<and>
              (Get_api context, Inr api) \<in> set tr \<and>
              (F5CliHandler s resource_config logger api, Inr cli_handler) \<in> set tr \<and>
              (RunCommandRunner logger cli_handler, Inr runner) \<in> set tr \<and>
              (Parse_custom_commands custom_command, Inr commands) \<in> set tr))
      \<and> (\<forall>v. res = Inr v \<and> reraising tr \<longrightarrow>
            (\<exists>runner commands. (Runner_run_custom_config_command runner commands, Inr v) \<in> set tr))) s"
  by (simp add: run_custom_config_command_def with_stmt_def wp_simps reraising_def)

text \<open>
  C7. Whenever \<^verbatim>\<open>run_custom_command\<close> calls the runner's \<^verbatim>\<open>run_custom_command\<close>
  (and likewise \<^verbatim>\<open>run_custom_config_command\<close>), the runner is a
  \<^verbatim>\<open>RunCommandRunner\<close> built from this call's logger and a CLI handler, the handler
  was built from \<^verbatim>\<open>self._cli\<close>, the resource configuration and the API handle of this
  call's context, and the command handed over is what \<^verbatim>\<open>parse_custom_commands\<close> made
  of the command string. Whenever the method returns a value, in a run in which the
  error boundary swallowed no exception, that value is the runner's response.
\<close>

theorem custom_commands_are_forwarded:
  "(run ext (run_custom_command context custom_command) self h = (res, self', tr) \<longrightarrow>
      (\<forall>runner commands r. (Runner_run_custom_command runner commands, r) \<in> set tr \<longrightarrow>
         (\<exists>logger resource_config api cli_handler.
            (Get_logger_with_thread_id context, Inr logger) \<in> set tr \<and>
            (Create_firewall_resource_from_context SHELL_NAME SUPPORTED_OS context,
               Inr resource_config) \<in> set tr \<and>
            (Get_api context, Inr api) \<in> set tr \<and>
            (F5CliHandler (cli self) resource_config logger api, Inr cli_handler) \<in> set tr \<and>
            (RunCommandRunner logger cli_handler, Inr runner) \<in> set tr \<and>
            (Parse_custom_commands custom_command, Inr commands) \<in> set tr))
      \<and> (\<forall>v. res = Inr v \<and> reraising tr \<longrightarrow>
            (\<exists>runner commands. (Runner_run_custom_command runner commands, Inr v) \<in> set tr)))
   \<and> (run ext (run_custom_config_command context custom_command) self h = (res, self', tr) \<longrightarrow>
      (\<forall>runner commands r. (Runner_run_custom_config_command runner commands, r) \<in> set tr \<longrightarrow>
         (\<exists>logger resource_config api cli_handler.
            (Get_logger_with_thread_id context, Inr logger) \<in> set tr \<and>
            (Create_firewall_resource_from_context SHELL_NAME SUPPORTED_OS context,
               Inr resource_config) \<in> set tr \<and>
            (Get_api context, Inr api) \<in> set tr \<and>
            (F5CliHandler (cli self) resource_config logger api, Inr cli_handler) \<in> set tr \<and>
            (RunCommandRunner logger cli_handler, Inr runner) \<in> set tr \<and>
            (Parse_custom_commands custom_command, Inr commands) \<in> set tr))
      \<and> (\<forall>v. res = Inr v \<and> reraising tr \<longrightarrow>
            (\<exists>runner commands.
               (Runner_run_custom_config_command runner commands, Inr v) \<in> set tr)))"
proof (rule conjI; rule impI)
  assume r: "run ext (run_custom_command context custom_command) self h = (res, self', tr)"
  from run_wp[OF r run_custom_command_forwards] show
    "(\<forall>runner commands r. (Runner_run_custom_command runner commands, r) \<in> set tr \<longrightarrow>
         (\<exists>logger resource_config api cli_handler.
            (Get_logger_with_thread_id context, Inr logger) \<in> set tr \<and>
            (Create_firewall_resource_from_context SHELL_NAME SUPPORTED_OS context,
               Inr resource_config) \<in> set tr \<and>
            (Get_api context, Inr api) \<in> set tr \<and>
            (F5CliHandler (cli self) resource_config logger api, Inr cli_handler) \<in> set tr \<and>
            (RunCommandRunner logger cli_handler, Inr runner) \<in> set tr \<and>
            (Parse_custom_commands custom_command, Inr commands) \<in> set tr))
      \<and> (\<forall>v. res = Inr v \<and> reraising tr \<longrightarrow>
            (\<exists>runner commands. (Runner_run_custom_command runner commands, Inr v) \<in> set tr))" .
next
  assume r: "run ext (run_custom_config_command context custom_command) self h = (res, self', tr)"
  from run_wp[OF r run_custom_config_command_forwards] show
    "(\<forall>runner commands r. (Runner_run_custom_config_command runner commands, r) \<in> set tr \<longrightarrow>
         (\<exists>logger resource_config api cli_handler.
            (Get_logger_with_thread_id context, Inr logger) \<in> set tr \<and>
            (Create_firewall_resource_from_context SHELL_NAME SUPPORTED_OS context,
               Inr resource_config) \<in> set tr \<and>
            (Get_api context, Inr api) \<in> set tr \<and>
            (F5CliHandler (cli self) resource_config logger api, Inr cli_handler) \<in> set tr \<and>
            (RunCommandRunner logger cli_handler, Inr runner) \<in> set tr \<and>
            (Parse_custom_commands custom_command, Inr commands) \<in> set tr))
      \<and> (\<forall>v. res = Inr v \<and> reraising tr \<longrightarrow>
            (\<exists>runner commands.
               (Runner_run_custom_config_command runner commands, Inr v) \<in> set tr))" .
qed

theorem custom_commands_are_forwarded_witness:
  "fst (run demo_env (run_custom_command (PyObj 0) (PyStr ''show version'')) new_driver [])
     = Inr (PyObj 10)
   \<and> reraising (snd (snd (run demo_env
        (run_custom_command (PyObj 0) (PyStr ''show version'')) new_driver [])))
   \<and> (Runner_run_custom_command (PyObj 9) (PyObj 5), Inr (PyObj 10))
     \<in> set (snd (snd (run demo_env
          (run_custom_command (PyObj 0) (PyStr ''show version'')) new_driver [])))
   \<and> (Parse_custom_commands (PyStr ''show version''), Inr (PyObj 5))
     \<in> set (snd (snd (run demo_env
          (run_custom_command (PyObj 0) (PyStr ''show version'')) new_driver [])))
   \<and> fst (run demo_env
        (run_custom_config_command (PyObj 0) (PyStr ''show version'')) new_driver [])
     = Inr (PyObj 10)
   \<and> (Runner_run_custom_config_command (PyObj 9) (PyObj 5), Inr (PyObj 10))
     \<in> set (snd (snd (run demo_env
          (run_custom_config_command (PyObj 0) (PyStr ''show version'')) new_driver [])))"
proof -
  note a = custom_commands_are_forwarded [THEN conjunct1, THEN mp,
      OF run_eta [of demo_env "run_custom_command (PyObj 0) (PyStr ''show version'')"
        new_driver "[]"]]
  note b = custom_commands_are_forwarded [THEN conjunct2, THEN mp,
      OF run_eta [of demo_env "run_custom_config_command (PyObj 0) (PyStr ''show version'')"
        new_driver "[]"]]
  from a b show ?thesis by (simp add: eval_defs reraising_def)
qed

subsection \<open>The error-handling boundary\<close>

lemma guarded_plain:
  "device_facing rq \<Longrightarrow> \<not> decorated rq \<Longrightarrow>
     wp (invoke rq) (\<lambda>res s' tr. guarded tr \<and>
        (\<forall>manager e v. (Exit manager (Some e), Inr v) \<in> set tr \<and> \<not> truthy v \<longrightarrow> res = Inl e)) s"
  by (cases rq) (simp_all add: method_defs wp_simps guarded_def boundary_def)

lemma guarded_decorated:
  "decorated rq \<Longrightarrow>
     wp (invoke rq) (\<lambda>res s' tr. within_lock guarded tr \<and>
        (\<forall>manager e v. (Exit manager (Some e), Inr v) \<in> set tr \<and> \<not> truthy v \<longrightarrow>
            res = Inl e \<or> (\<exists>e'. (Lock_release, Inl e') \<in> set tr \<and> res = Inl e'))) s"
  by (cases rq) (simp_all add: method_defs wp_simps guarded_def boundary_def within_lock_def)

lemma no_boundary:
  "\<not> device_facing rq \<Longrightarrow>
     wp (invoke rq) (\<lambda>res s' tr. filter is_boundary_call (map fst tr) = []) s"
  by (cases rq) (simp_all add: method_defs wp_simps)

text \<open>
  C1, as the code has it. Each of the ten device-facing operations obtains its logger,
  logs that it started, and runs everything else inside
  \<^verbatim>\<open>ErrorHandlingContext(logger)\<close> (for the three decorated ones, all of this between
  acquiring and releasing the lock): a call that raises ends the body, its exception goes
  to \<^verbatim>\<open>__exit__\<close> as the very next call, nothing is called afterwards but the lock
  release, so that nothing is recovered or retried, and unless \<^verbatim>\<open>__exit__\<close> answers
  with a true value the operation raises that exception (or the one raised by releasing
  the lock). \<^verbatim>\<open>initialize\<close> and \<^verbatim>\<open>cleanup\<close> create no error-handling boundary and
  call none.
\<close>

theorem device_operations_run_inside_the_error_boundary:
  assumes "run ext (invoke rq) self h = (res, self', tr)"
  shows "(device_facing rq \<longrightarrow>
            (if decorated rq then within_lock guarded tr else guarded tr) \<and>
            (\<forall>manager e v. (Exit manager (Some e), Inr v) \<in> set tr \<and> \<not> truthy v \<longrightarrow>
                res = Inl e \<or> (\<exists>e'. (Lock_release, Inl e') \<in> set tr \<and> res = Inl e')))
       \<and> (\<not> device_facing rq \<longrightarrow> filter is_boundary_call (map fst tr) = [])"
proof (cases "device_facing rq")
  case False
  with run_wp[OF assms no_boundary] show ?thesis by simp
next
  case True
  show ?thesis
  proof (cases "decorated rq")
    case True
    with run_wp[OF assms guarded_decorated] \<open>device_facing rq\<close> show ?thesis by simp
  next
    case False
    with run_wp[OF assms guarded_plain] \<open>device_facing rq\<close> show ?thesis by simp
  qed
qed

theorem device_operations_run_inside_the_error_boundary_witness:
  "device_facing (Save (PyObj 0) (PyStr ''ftp://host/backups'') PyNone)
   \<and> guarded (snd (snd (run failing_env
        (invoke (Save (PyObj 0) (PyStr ''ftp://host/backups'') PyNone)) new_driver [])))
   \<and> (Exit (PyObj 6) (Some (Exception ''bad context'')), Inr (PyBool False))
       \<in> set (snd (snd (run failing_env
            (invoke (Save (PyObj 0) (PyStr ''ftp://host/backups'') PyNone)) new_driver [])))
   \<and> fst (run failing_env
        (invoke (Save (PyObj 0) (PyStr ''ftp://host/backups'') PyNone)) new_driver [])
       = Inl (Exception ''bad context'')
   \<and> decorated (Get_inventory (PyObj 0))
   \<and> within_lock guarded (snd (snd (run demo_env
        (invoke (Get_inventory (PyObj 0))) new_driver [])))
   \<and> \<not> device_facing (Initialize (PyObj 0))
   \<and> filter is_boundary_call (map fst (snd (snd (run demo_env
        (invoke (Initialize (PyObj 0))) new_driver [])))) = []"
proof -
  note a = device_operations_run_inside_the_error_boundary
      [OF run_eta [of failing_env
         "invoke (Save (PyObj 0) (PyStr ''ftp://host/backups'') PyNone)" new_driver "[]"]]
  note b = device_operations_run_inside_the_error_boundary
      [OF run_eta [of demo_env "invoke (Get_inventory (PyObj 0))" new_driver "[]"]]
  note c = device_operations_run_inside_the_error_boundary
      [OF run_eta [of demo_env "invoke (Initialize (PyObj 0))" new_driver "[]"]]
  from a b c show ?thesis
    by (simp add: eval_defs guarded_def boundary_def within_lock_def)
qed

text \<open>
  C1 as stated fails for \<^verbatim>\<open>initialize\<close>: when the resource configuration cannot be
  built from the context, the exception leaves \<^verbatim>\<open>initialize\<close> after that single call;
  no boundary was created and no \<^verbatim>\<open>__exit__\<close> sees the exception.
\<close>

theorem initialize_has_no_error_boundary:
  "run failing_env (invoke (Initialize (PyObj 0))) new_driver [] =
     (Inl (Exception ''bad context''), new_driver,
      [(Create_firewall_resource_from_context SHELL_NAME SUPPORTED_OS (PyObj 0),
        Inl (Exception ''bad context''))])
   \<and> \<not> guarded [(Create_firewall_resource_from_context SHELL_NAME SUPPORTED_OS (PyObj 0),
                  Inl (Exception ''bad context''))]"
  by (simp add: eval_defs guarded_def)

subsection \<open>Dispatch to the runners\<close>

lemma dispatches_device_facing:
  "device_facing rq \<Longrightarrow>
     wp (invoke rq) (\<lambda>res s' tr. all_ok tr \<longrightarrow>
        (\<exists>context. context_of rq = Some context \<and> dispatches context s tr)) s"
  by (cases rq)
     (simp_all add: method_defs wp_simps all_ok_def dispatches_def outcome_of_def
        delegates_def makes_runner_def logs_entry_and_exit_def)

lemma no_dispatch:
  "\<not> device_facing rq \<Longrightarrow>
     wp (invoke rq) (\<lambda>res s' tr. filter is_dispatch_call (map fst tr) = []) s"
  by (cases rq) (simp_all add: method_defs wp_simps)

text \<open>
  C5, as the code has it. In every run of one of the ten device-facing operations in
  which no call raises, the operation builds the per-call context of its context argument
  (logger, resource configuration, API handle, and the CLI handler made from
  \<^verbatim>\<open>self._cli\<close> and these), constructs a runner from it, calls a method of that runner,
  and logs on entry and after the runner returned. \<^verbatim>\<open>initialize\<close> and \<^verbatim>\<open>cleanup\<close>
  obtain no logger, log nothing, and build no API handle, CLI handler or runner.
\<close>

theorem device_operations_dispatch_to_a_runner:
  assumes "run ext (invoke rq) self h = (res, self', tr)"
  shows "(device_facing rq \<and> all_ok tr \<longrightarrow>
            (\<exists>context. context_of rq = Some context \<and> dispatches context (cli self) tr))
       \<and> (\<not> device_facing rq \<longrightarrow> filter is_dispatch_call (map fst tr) = [])"
proof (cases "device_facing rq")
  case True
  with run_wp[OF assms dispatches_device_facing] show ?thesis by simp
next
  case False
  with run_wp[OF assms no_dispatch] show ?thesis by simp
qed

theorem device_operations_dispatch_to_a_runner_witness:
  "device_facing (Get_inventory (PyObj 0))
   \<and> all_ok (snd (snd (run demo_env (invoke (Get_inventory (PyObj 0))) new_driver [])))
   \<and> context_of (Get_inventory (PyObj 0)) = Some (PyObj 0)
   \<and> dispatches (PyObj 0) (cli new_driver)
        (snd (snd (run demo_env (invoke (Get_inventory (PyObj 0))) new_driver [])))
   \<and> \<not> device_facing Cleanup
   \<and> filter is_dispatch_call
        (map fst (snd (snd (run demo_env (invoke Cleanup) new_driver [])))) = []"
proof -
  note a = device_operations_dispatch_to_a_runner
      [OF run_eta [of demo_env "invoke (Get_inventory (PyObj 0))" new_driver "[]"]]
  note b = device_operations_dispatch_to_a_runner
      [OF run_eta [of demo_env "invoke Cleanup" new_driver "[]"]]
  from a b show ?thesis
    by (simp add: eval_defs all_ok_def dispatches_def outcome_of_def
          delegates_def makes_runner_def logs_entry_and_exit_def
          SHELL_NAME_def SUPPORTED_OS_def)
qed

text \<open>
  C5 as stated fails for \<^verbatim>\<open>initialize\<close>: a run in which every call returns builds no
  per-call context, delegates to no runner and logs nothing.
\<close>

theorem initialize_does_not_dispatch:
  "fst (run demo_env (invoke (Initialize (PyObj 0))) new_driver [])
     = Inr (PyStr ''Finished initializing'')
   \<and> all_ok (snd (snd (run demo_env (invoke (Initialize (PyObj 0))) new_driver [])))
   \<and> \<not> dispatches (PyObj 0) (cli new_driver)
         (snd (snd (run demo_env (invoke (Initialize (PyObj 0))) new_driver [])))
   \<and> filter is_dispatch_call
        (map fst (snd (snd (run demo_env (invoke (Initialize (PyObj 0))) new_driver [])))) = []"
  by (simp add: eval_defs all_ok_def dispatches_def outcome_of_def
        SHELL_NAME_def SUPPORTED_OS_def)

subsection \<open>One session pool per driver\<close>

lemma reuse_one:
  "device_facing rq \<Longrightarrow>
     wp (invoke rq) (\<lambda>res s' tr. s' = s \<and> list_all (reuses s) (map fst tr)) s"
  by (cases rq) (simp_all add: method_defs wp_simps)

lemma reuses_filter:
  "list_all (reuses pool) (map fst tr) \<Longrightarrow> filter is_get_cli (map fst tr) = []"
proof (induction tr)
  case Nil
  then show ?case by simp
next
  case (Cons ev tr)
  then show ?case by (cases "fst ev") simp_all
qed

lemma reuses_handler:
  "list_all (reuses pool) (map fst tr) \<Longrightarrow> (F5CliHandler p cfg lg api, r) \<in> set tr \<Longrightarrow>
     p = pool"
  by (induction tr) auto

lemma reuses_append:
  "list_all (reuses pool) (map fst (tr @ tr')) =
     (list_all (reuses pool) (map fst tr) \<and> list_all (reuses pool) (map fst tr'))"
  by simp

lemma initialize_creates_once:
  "wp (initialize context) (\<lambda>res s' tr. \<forall>v. res = Inr v \<longrightarrow>
      (\<exists>size. filter is_get_cli (map fst tr) = [Get_cli size] \<and> (Get_cli size, Inr s') \<in> set tr)) s"
  by (simp add: method_defs wp_simps)

lemma serve_reuses:
  "list_all device_facing rqs \<Longrightarrow> serve ext rqs self h = (self', tr) \<Longrightarrow>
     self' = self \<and> list_all (reuses (cli self)) (map fst tr)"
proof (induction rqs arbitrary: self h self' tr)
  case Nil
  then show ?case by simp
next
  case (Cons rq rqs)
  obtain res s1 t1 where r: "run ext (invoke rq) self h = (res, s1, t1)"
    by (metis prod_cases3)
  obtain s2 t2 where s: "serve ext rqs s1 (h @ t1) = (s2, t2)"
    by (metis surj_pair)
  from Cons.prems(2) r s have eq: "self' = s2" "tr = t1 @ t2" by simp_all
  from Cons.prems(1) have df: "device_facing rq" and rest: "list_all device_facing rqs"
    by simp_all
  note w = wp_sound[OF reuse_one[OF df] r]
  from w have one: "cli s1 = cli self" "list_all (reuses (cli self)) (map fst t1)"
    by blast+
  from w have fr: "s1 = self\<lparr>cli := cli s1\<rparr>" by blast
  from fr[unfolded one(1)] have s1: "s1 = self" by simp
  from Cons.IH[OF rest s] s1
  have ih: "s2 = self" "list_all (reuses (cli self)) (map fst t2)"
    by simp_all
  from eq one ih show ?case by simp
qed

lemma serve_eta:
  "serve ext rqs self h = (fst (serve ext rqs self h), snd (serve ext rqs self h))"
  by simp

text \<open>
  C4. Once \<^verbatim>\<open>initialize\<close> has succeeded, the instance holds in \<^verbatim>\<open>_cli\<close> the pool
  that its single call of \<^verbatim>\<open>get_cli\<close> returned. Whatever device-facing operations the
  platform then invokes, in whatever order and whether they return or raise, the instance
  stays as it is, \<^verbatim>\<open>get_cli\<close> is not called again, and every CLI handler that is
  constructed is given that same pool.
\<close>

theorem one_session_pool_is_reused:
  assumes "run ext (initialize context) self h = (Inr v, self1, tr1)"
      and "list_all device_facing rqs"
      and "serve ext rqs self1 (h @ tr1) = (self2, tr2)"
  shows "\<exists>size pool.
           filter is_get_cli (map fst (tr1 @ tr2)) = [Get_cli size] \<and>
           (Get_cli size, Inr pool) \<in> set tr1 \<and>
           cli self1 = pool \<and> self2 = self1 \<and>
           (\<forall>p cfg lg api r. (F5CliHandler p cfg lg api, r) \<in> set tr2 \<longrightarrow> p = pool)"
proof -
  from run_wp[OF assms(1) initialize_creates_once]
  obtain size where i: "filter is_get_cli (map fst tr1) = [Get_cli size]"
    "(Get_cli size, Inr (cli self1)) \<in> set tr1"
    by auto
  from serve_reuses[OF assms(2,3)]
  have s: "self2 = self1" "list_all (reuses (cli self1)) (map fst tr2)"
    by simp_all
  from reuses_filter[OF s(2)] i(1)
  have "filter is_get_cli (map fst (tr1 @ tr2)) = [Get_cli size]" by simp
  moreover have "\<forall>p cfg lg api r. (F5CliHandler p cfg lg api, r) \<in> set tr2 \<longrightarrow> p = cli self1"
    using reuses_handler[OF s(2)] by blast
  ultimately show ?thesis using i(2) s(1) by blast
qed

theorem one_session_pool_is_reused_witness:
  "run demo_env (initialize (PyObj 0)) new_driver [] =
     (Inr (PyStr ''Finished initializing''), \<lparr>cli = PyObj 2\<rparr>,
      [(Create_firewall_resource_from_context SHELL_NAME SUPPORTED_OS (PyObj 0), Inr (PyObj 1)),
       (Sessions_concurrency_limit (PyObj 1), Inr (PyStr ''1'')),
       (Builtin_int (PyStr ''1''), Inr (PyInt 1)),
       (Get_cli (PyInt 1), Inr (PyObj 2))])
   \<and> list_all device_facing
        [Save (PyObj 0) (PyStr ''ftp://host/backups'') PyNone, Health_check (PyObj 0)]
   \<and> fst (serve demo_env
        [Save (PyObj 0) (PyStr ''ftp://host/backups'') PyNone, Health_check (PyObj 0)]
        \<lparr>cli = PyObj 2\<rparr>
        [(Create_firewall_resource_from_context SHELL_NAME SUPPORTED_OS (PyObj 0), Inr (PyObj 1)),
         (Sessions_concurrency_limit (PyObj 1), Inr (PyStr ''1'')),
         (Builtin_int (PyStr ''1''), Inr (PyInt 1)),
         (Get_cli (PyInt 1), Inr (PyObj 2))]) = \<lparr>cli = PyObj 2\<rparr>
   \<and> filter (\<lambda>ev. fst ev = F5CliHandler (PyObj 2) (PyObj 1) (PyObj 4) (PyObj 3))
       (snd (serve demo_env
        [Save (PyObj 0) (PyStr ''ftp://host/backups'') PyNone, Health_check (PyObj 0)]
        \<lparr>cli = PyObj 2\<rparr>
        [(Create_firewall_resource_from_context SHELL_NAME SUPPORTED_OS (PyObj 0), Inr (PyObj 1)),
         (Sessions_concurrency_limit (PyObj 1), Inr (PyStr ''1'')),
         (Builtin_int (PyStr ''1''), Inr (PyInt 1)),
         (Get_cli (PyInt 1), Inr (PyObj 2))]))
     = [(F5CliHandler (PyObj 2) (PyObj 1) (PyObj 4) (PyObj 3), Inr (PyObj 7)),
        (F5CliHandler (PyObj 2) (PyObj 1) (PyObj 4) (PyObj 3), Inr (PyObj 7))]"
proof -
  have r: "run demo_env (initialize (PyObj 0)) new_driver [] =
     (Inr (PyStr ''Finished initializing''), \<lparr>cli = PyObj 2\<rparr>,
      [(Create_firewall_resource_from_context SHELL_NAME SUPPORTED_OS (PyObj 0), Inr (PyObj 1)),
       (Sessions_concurrency_limit (PyObj 1), Inr (PyStr ''1'')),
       (Builtin_int (PyStr ''1''), Inr (PyInt 1)),
       (Get_cli (PyInt 1), Inr (PyObj 2))])"
    by (simp add: eval_defs)
  have d: "list_all device_facing
        [Save (PyObj 0) (PyStr ''ftp://host/backups'') PyNone, Health_check (PyObj 0)]"
    by simp
  note w = one_session_pool_is_reused [OF r d serve_eta [of demo_env _ _ "[] @ _"]]
  from w r d show ?thesis by (simp add: eval_defs)
qed

subsection \<open>The names of the operations\<close>

text \<open>
  C6. The methods the platform can invoke on the driver are exactly the twelve of the
  plugin surface: \<^verbatim>\<open>initialize\<close>, \<^verbatim>\<open>get_inventory\<close>, \<^verbatim>\<open>run_custom_command\<close>,
  \<^verbatim>\<open>run_custom_config_command\<close>, \<^verbatim>\<open>save\<close>, \<^verbatim>\<open>restore\<close>, \<^verbatim>\<open>load_firmware\<close>,
  \<^verbatim>\<open>shutdown\<close>, \<^verbatim>\<open>orchestration_save\<close>, \<^verbatim>\<open>orchestration_restore\<close>,
  \<^verbatim>\<open>health_check\<close> and \<^verbatim>\<open>cleanup\<close>.
\<close>

theorem plugin_surface:
  "range method_name =
     {''initialize'', ''get_inventory'', ''run_custom_command'', ''run_custom_config_command'',
      ''save'', ''restore'', ''load_firmware'', ''shutdown'', ''orchestration_save'',
      ''orchestration_restore'', ''health_check'', ''cleanup''}"
proof (rule equalityI)
  show "range method_name \<subseteq>
     {''initialize'', ''get_inventory'', ''run_custom_command'', ''run_custom_config_command'',
      ''save'', ''restore'', ''load_firmware'', ''shutdown'', ''orchestration_save'',
      ''orchestration_restore'', ''health_check'', ''cleanup''}"
  proof (rule image_subsetI)
    fix rq
    show "method_name rq \<in>
     {''initialize'', ''get_inventory'', ''run_custom_command'', ''run_custom_config_command'',
      ''save'', ''restore'', ''load_firmware'', ''shutdown'', ''orchestration_save'',
      ''orchestration_restore'', ''health_check'', ''cleanup''}"
      by (cases rq) (simp_all only: method_name.simps insert_iff simp_thms)
  qed
next
  have "method_name (Initialize PyNone) \<in> range method_name"
    "method_name (Get_inventory PyNone) \<in> range method_name"
    "method_name (Run_custom_command PyNone PyNone) \<in> range method_name"
    "method_name (Run_custom_config_command PyNone PyNone) \<in> range method_name"
    "method_name (Save PyNone PyNone PyNone) \<in> range method_name"
    "method_name (Restore PyNone PyNone PyNone PyNone) \<in> range method_name"
    "method_name (Load_firmware PyNone PyNone) \<in> range method_name"
    "method_name (Shutdown PyNone) \<in> range method_name"
    "method_name (Orchestration_save PyNone PyNone PyNone) \<in> range method_name"
    "method_name (Orchestration_restore PyNone PyNone PyNone) \<in> range method_name"
    "method_name (Health_check PyNone) \<in> range method_name"
    "method_name Cleanup \<in> range method_name"
    by (rule rangeI)+
  then show "{''initialize'', ''get_inventory'', ''run_custom_command'',
      ''run_custom_config_command'', ''save'', ''restore'', ''load_firmware'', ''shutdown'',
      ''orchestration_save'', ''orchestration_restore'', ''health_check'', ''cleanup''}
      \<subseteq> range method_name"
    by (simp only: method_name.simps insert_subset empty_subsetI simp_thms)
qed


subsection \<open>The lock\<close>

lemma lockfree_handle:
  "lockfree p \<Longrightarrow> (\<And>x. lockfree (f x)) \<Longrightarrow> (\<And>e. lockfree (g e)) \<Longrightarrow> lockfree (handle p f g)"
  by (induction p) simp_all

lemma lockfree_bind:
  "lockfree p \<Longrightarrow> (\<And>x. lockfree (f x)) \<Longrightarrow> lockfree (bind p f)"
  by (simp add: bind_def lockfree_handle)

lemma lockfree_call: "lockfree (call c) = (\<not> is_lock_call c)"
  by (auto simp: call_def split: sum.splits)

lemma lockfree_load_cli: "lockfree load_cli"
  by (simp add: load_cli_def)

lemma lockfree_store_cli: "lockfree (store_cli v)"
  by (simp add: store_cli_def)

lemma lockfree_with_stmt:
  "\<not> is_lock_call expr \<Longrightarrow> lockfree body \<Longrightarrow> lockfree (with_stmt expr body)"
  unfolding with_stmt_def
  by (intro lockfree_bind lockfree_handle) (simp_all add: lockfree_call)

lemmas lockfree_intros = lockfree_bind lockfree_with_stmt lockfree_load_cli lockfree_store_cli

lemma finished_after_release:
  "finished q \<Longrightarrow>
     finished (handle (case r of Inl e \<Rightarrow> Raise e | Inr v \<Rightarrow> Return v) (\<lambda>_. q) Raise)"
  by (cases r) simp_all

lemma releasing_after_acquire:
  "lockfree p \<Longrightarrow>
     releasing (handle p (\<lambda>v. bind (call Lock_release) (\<lambda>_. Return v))
                         (\<lambda>e. bind (call Lock_release) (\<lambda>_. Raise e)))"
proof (induction p)
  case (Call c k)
  then show ?case by (cases c) simp_all
qed (simp_all add: bind_def call_def finished_after_release)

lemma lock_shape:
  "lock p = Call Lock_acquire (\<lambda>r. case r of
       Inl e \<Rightarrow> Raise e
     | Inr _ \<Rightarrow> handle p (\<lambda>v. bind (call Lock_release) (\<lambda>_. Return v))
                          (\<lambda>e. bind (call Lock_release) (\<lambda>_. Raise e)))"
  by (auto simp: lock_def bind_def call_def split: sum.splits)

lemma invoke_plain: "\<not> decorated rq \<Longrightarrow> lockfree (invoke rq)"
  by (cases rq)
     (simp_all add: initialize_def run_custom_command_def run_custom_config_command_def
        save_def shutdown_def orchestration_save_def orchestration_restore_def
        health_check_def cleanup_def lockfree_intros lockfree_call)

lemma invoke_decorated:
  "decorated rq \<Longrightarrow> \<exists>k. invoke rq = Call Lock_acquire k \<and> releasing (k (Inr PyNone))"
  by (cases rq)
     (simp_all add: get_inventory_def restore_def load_firmware_def lock_shape
        releasing_after_acquire lockfree_intros lockfree_call)

lemma spawn_ok: "thread_ok None i (spawn rq)"
  using invoke_plain[of rq] by (simp add: thread_ok_def spawn_def)

lemma start_ok: "system_ok rqs (start rqs self)"
  by (simp add: system_ok_def start_def spawn_ok) (simp add: spawn_def comp_def)

lemma thread_ok_other:
  "thread_ok hld j t \<Longrightarrow> hld \<noteq> Some j \<Longrightarrow> hld' \<noteq> Some j \<Longrightarrow> thread_ok hld' j t"
  by (auto simp: thread_ok_def)

lemma system_ok_step:
  assumes ok: "system_ok rqs sys" and i: "i < length (threads sys)"
    and th: "threads sys' = (threads sys)[i := t']"
    and op: "operation t' = operation (threads sys ! i)"
    and me: "thread_ok (holder sys') i t'"
    and hld: "holder sys' = holder sys \<or> (holder sys = None \<and> holder sys' = Some i) \<or>
              (holder sys = Some i \<and> holder sys' = None)"
  shows "system_ok rqs sys'"
proof -
  from ok have ops: "map operation (threads sys) = rqs"
    and all: "\<And>j. j < length (threads sys) \<Longrightarrow> thread_ok (holder sys) j (threads sys ! j)"
    by (simp_all add: system_ok_def)
  have "map operation (threads sys') = (map operation (threads sys))[i := operation t']"
    by (simp add: th map_update)
  also have "\<dots> = map operation (threads sys)"
    using i by (simp add: op list_update_same_conv)
  finally have ops': "map operation (threads sys') = rqs" using ops by simp
  have "thread_ok (holder sys') j (threads sys' ! j)" if j: "j < length (threads sys')" for j
  proof (cases "j = i")
    case True
    with me i show ?thesis by (simp add: th)
  next
    case False
    from j have j': "j < length (threads sys)" by (simp add: th)
    from all[OF j'] have old: "thread_ok (holder sys) j (threads sys ! j)" .
    have "thread_ok (holder sys') j (threads sys ! j)"
      using hld
    proof (elim disjE conjE)
      assume "holder sys' = holder sys"
      with old show ?thesis by simp
    next
      assume "holder sys = None" "holder sys' = Some i"
      with old False show ?thesis by (intro thread_ok_other[OF old]) simp_all
    next
      assume "holder sys = Some i" "holder sys' = None"
      with old False show ?thesis by (intro thread_ok_other[OF old]) simp_all
    qed
    with False show ?thesis by (simp add: th)
  qed
  with ops' show ?thesis by (simp add: system_ok_def)
qed

lemma step_ok:
  assumes ok: "system_ok rqs sys" and i: "i < length (threads sys)"
    and step: "step_thread i r sys = Some sys'"
  shows "system_ok rqs sys'"
proof -
  let ?t = "threads sys ! i"
  from ok i have ti: "thread_ok (holder sys) i ?t" by (simp add: system_ok_def)
  show ?thesis
  proof (cases "todo ?t")
    case (Return v)
    with step show ?thesis by (simp add: step_thread_def)
  next
    case (Raise e)
    with step show ?thesis by (simp add: step_thread_def)
  next
    case (Load_cli k)
    with step have sys': "sys' = sys\<lparr>threads := (threads sys)
        [i := ?t\<lparr>todo := k (cli (shared sys))\<rparr>]\<rparr>"
      by (simp add: step_thread_def)
    have nd: "invoke (operation ?t) \<noteq> Load_cli k" if "decorated (operation ?t)"
      using invoke_decorated[OF that] by auto
    have "thread_ok (holder sys) i (?t\<lparr>todo := k (cli (shared sys))\<rparr>)"
      using ti Load_cli nd by (auto simp: thread_ok_def split: if_splits)
    then show ?thesis
      by (intro system_ok_step[OF ok i, where t' = "?t\<lparr>todo := k (cli (shared sys))\<rparr>"])
         (simp_all add: sys')
  next
    case (Store_cli v p)
    with step have sys': "sys' = sys\<lparr>threads := (threads sys)[i := ?t\<lparr>todo := p\<rparr>],
        shared := (shared sys)\<lparr>cli := v\<rparr>\<rparr>"
      by (simp add: step_thread_def)
    have nd: "invoke (operation ?t) \<noteq> Store_cli v p" if "decorated (operation ?t)"
      using invoke_decorated[OF that] by auto
    have "thread_ok (holder sys) i (?t\<lparr>todo := p\<rparr>)"
      using ti Store_cli nd by (auto simp: thread_ok_def split: if_splits)
    then show ?thesis
      by (intro system_ok_step[OF ok i, where t' = "?t\<lparr>todo := p\<rparr>"])
         (simp_all add: sys')
  next
    case (Call c k)
    consider (acq) "c = Lock_acquire" | (rel) "c = Lock_release" | (other) "\<not> is_lock_call c"
      by (cases c) auto
    then show ?thesis
    proof cases
      case acq
      from step Call acq have free: "holder sys = None"
        and sys': "sys' = (proceed i c (Inr PyNone) k sys)\<lparr>holder := Some i\<rparr>"
        by (auto simp: step_thread_def split: if_splits)
      from ti Call acq free have dec: "decorated (operation ?t)"
        and inv: "todo ?t = invoke (operation ?t)"
        by (auto simp: thread_ok_def split: if_splits)
      from invoke_decorated[OF dec] inv Call have rls: "releasing (k (Inr PyNone))"
        by auto
      let ?t' = "?t\<lparr>todo := k (Inr PyNone), past := past ?t @ [(c, Inr PyNone)]\<rparr>"
      have "thread_ok (Some i) i ?t'"
        using dec rls by (simp add: thread_ok_def)
      then show ?thesis
        by (intro system_ok_step[OF ok i, where t' = ?t'])
           (simp_all add: sys' proceed_def free)
    next
      case rel
      from ti Call rel have dec: "decorated (operation ?t)"
        by (auto simp: thread_ok_def split: if_splits)
      have nd: "invoke (operation ?t) \<noteq> Call Lock_release k"
        using invoke_decorated[OF dec] by auto
      from ti Call rel dec nd have mine: "holder sys = Some i"
        and fin: "\<And>r. finished (k r)"
        by (auto simp: thread_ok_def split: if_splits)
      from step Call rel mine
      have sys': "sys' = (proceed i c (Inr PyNone) k sys)\<lparr>holder := None\<rparr>"
        by (auto simp: step_thread_def split: if_splits)
      let ?t' = "?t\<lparr>todo := k (Inr PyNone), past := past ?t @ [(c, Inr PyNone)]\<rparr>"
      have "thread_ok None i ?t'"
        using dec fin by (simp add: thread_ok_def)
      then show ?thesis
        by (intro system_ok_step[OF ok i, where t' = ?t'])
           (simp_all add: sys' proceed_def mine)
    next
      case other
      then have c: "c \<noteq> Lock_acquire" "c \<noteq> Lock_release" by auto
      with step Call have sys': "sys' = proceed i c r k sys"
        by (auto simp: step_thread_def split: if_splits)
      have nd: "invoke (operation ?t) \<noteq> Call c k" if "decorated (operation ?t)"
        using invoke_decorated[OF that] c by auto
      let ?t' = "?t\<lparr>todo := k r, past := past ?t @ [(c, r)]\<rparr>"
      have "thread_ok (holder sys) i ?t'"
        using ti Call other c nd by (auto simp: thread_ok_def split: if_splits)
      then show ?thesis
        by (intro system_ok_step[OF ok i, where t' = ?t'])
           (simp_all add: sys' proceed_def)
    qed
  qed
qed

lemma run_schedule_ok:
  "system_ok rqs sys \<Longrightarrow> run_schedule sched sys = Some sys' \<Longrightarrow> system_ok rqs sys'"
proof (induction sched arbitrary: sys)
  case Nil
  then show ?case by simp
next
  case (Cons a sched)
  obtain i r where a: "a = (i, r)" by (cases a)
  from Cons.prems(2) a obtain sys1 where i: "i < length (threads sys)"
    and s1: "step_thread i r sys = Some sys1" and rest: "run_schedule sched sys1 = Some sys'"
    by (auto split: if_splits option.splits)
  from Cons.IH[OF step_ok[OF Cons.prems(1) i s1] rest] show ?case .
qed

lemma reachable_ok:
  "run_schedule sched (start rqs self) = Some sys \<Longrightarrow> system_ok rqs sys"
  using run_schedule_ok[OF start_ok] .

lemma releasing_not_finished: "releasing p \<Longrightarrow> \<not> finished p"
  by (cases p) simp_all

lemma lockfree_can_step:
  assumes "lockfree (todo (threads sys ! i))" and "\<not> finished (todo (threads sys ! i))"
  shows "step_thread i r sys \<noteq> None"
proof (cases "todo (threads sys ! i)")
  case (Call c k)
  with assms(1) have "c \<noteq> Lock_acquire" "c \<noteq> Lock_release" by auto
  with Call show ?thesis by (simp add: step_thread_def)
qed (use assms(2) in \<open>simp_all add: step_thread_def\<close>)

lemma decorated_names:
  "decorated rq \<longleftrightarrow> method_name rq \<in> {''get_inventory'', ''restore'', ''load_firmware''}"
  by (cases rq) simp_all

text \<open>
  C2. Take any number of threads, each performing one operation on the same driver
  instance, interleaved in any way and with any answers of the collaborators. Two threads
  performing \<^verbatim>\<open>get_inventory\<close>, \<^verbatim>\<open>restore\<close> or \<^verbatim>\<open>load_firmware\<close> are never both
  running: such a thread runs exactly while it holds the lock. A thread performing any
  other operation never holds the lock and never waits for it: as long as it has not
  finished it can make its next step, whoever holds the lock. The decorated operations
  are exactly the three named.
\<close>

theorem lock_serializes_the_decorated_operations:
  assumes "run_schedule sched (start rqs self) = Some sys"
  shows "(\<forall>i j. i < length rqs \<and> j < length rqs \<and> i \<noteq> j \<and>
                decorated (rqs ! i) \<and> decorated (rqs ! j) \<longrightarrow>
                \<not> (running (threads sys ! i) \<and> running (threads sys ! j)))
       \<and> (\<forall>i. i < length rqs \<and> decorated (rqs ! i) \<longrightarrow>
                (running (threads sys ! i) \<longleftrightarrow> holder sys = Some i))
       \<and> (\<forall>i r. i < length rqs \<and> \<not> decorated (rqs ! i) \<longrightarrow>
                holder sys \<noteq> Some i \<and>
                (\<not> finished (todo (threads sys ! i)) \<longrightarrow> step_thread i r sys \<noteq> None))
       \<and> (\<forall>rq. decorated rq \<longleftrightarrow>
                method_name rq \<in> {''get_inventory'', ''restore'', ''load_firmware''})"
proof -
  from reachable_ok[OF assms] have ops: "map operation (threads sys) = rqs"
    and all: "\<And>i. i < length (threads sys) \<Longrightarrow> thread_ok (holder sys) i (threads sys ! i)"
    by (simp_all add: system_ok_def)
  from ops have len: "length (threads sys) = length rqs" by (metis length_map)
  have op: "operation (threads sys ! i) = rqs ! i" if "i < length rqs" for i
    using that ops len by (metis nth_map)
  have holds: "running (threads sys ! i) \<longleftrightarrow> holder sys = Some i"
    if i: "i < length rqs" and d: "decorated (rqs ! i)" for i
    using all[of i] i d len op[OF i] releasing_not_finished[of "todo (threads sys ! i)"]
    by (auto simp: thread_ok_def running_def)
  have plain: "holder sys \<noteq> Some i \<and>
      (\<not> finished (todo (threads sys ! i)) \<longrightarrow> step_thread i r sys \<noteq> None)"
    if i: "i < length rqs" and d: "\<not> decorated (rqs ! i)" for i r
    using all[of i] i d len op[OF i] lockfree_can_step[of sys i r]
    by (auto simp: thread_ok_def)
  have excl: "\<not> (running (threads sys ! i) \<and> running (threads sys ! j))"
    if "i < length rqs" "j < length rqs" "i \<noteq> j" "decorated (rqs ! i)" "decorated (rqs ! j)"
    for i j
    using holds[of i] holds[of j] that by auto
  from excl holds plain decorated_names show ?thesis by blast
qed

theorem lock_serializes_the_decorated_operations_witness:
  "(case run_schedule [(0, Inr PyNone), (0, Inr (PyObj 4)), (2, Inr (PyObj 4))]
           (start [Get_inventory (PyObj 0), Load_firmware (PyObj 0) (PyStr ''tftp://host/image''),
                   Shutdown (PyObj 0)] new_driver) of
      None \<Rightarrow> False
    | Some sys \<Rightarrow>
        holder sys = Some 0 \<and>
        running (threads sys ! 0) \<and> \<not> running (threads sys ! 1) \<and> running (threads sys ! 2) \<and>
        step_thread 1 (Inr PyNone) sys = None \<and>
        step_thread 2 (Inr PyNone) sys \<noteq> None)
   \<and> decorated (Get_inventory (PyObj 0))
   \<and> decorated (Load_firmware (PyObj 0) (PyStr ''tftp://host/image''))
   \<and> \<not> decorated (Shutdown (PyObj 0))"
proof -
  have "\<exists>sys. run_schedule [(0, Inr PyNone), (0, Inr (PyObj 4)), (2, Inr (PyObj 4))]
           (start [Get_inventory (PyObj 0), Load_firmware (PyObj 0) (PyStr ''tftp://host/image''),
                   Shutdown (PyObj 0)] new_driver) = Some sys"
    by (simp add: start_def spawn_def step_thread_def proceed_def method_defs bind_def call_def)
  then obtain sys where s: "run_schedule [(0, Inr PyNone), (0, Inr (PyObj 4)), (2, Inr (PyObj 4))]
           (start [Get_inventory (PyObj 0), Load_firmware (PyObj 0) (PyStr ''tftp://host/image''),
                   Shutdown (PyObj 0)] new_driver) = Some sys" ..
  note w = lock_serializes_the_decorated_operations [OF s]
  from w show ?thesis
    by (simp add: start_def spawn_def step_thread_def proceed_def running_def method_defs
          bind_def call_def load_cli_def)
qed


end
